theory Spec2Isabelle
  imports Main "HOL-Library.Word"
begin

unbundle bit_operations_syntax

chapter \<open>specter: the authenticated request pipeline and the frontmatter parser\<close>

text \<open>
  A shallow embedding of the Go sources \<^verbatim>\<open>api/auth.go\<close>, \<^verbatim>\<open>api/client.go\<close>, the
  posts listing of package \<^verbatim>\<open>cmd\<close> and the parser of package \<^verbatim>\<open>content\<close>. A Go
  \<^verbatim>\<open>string\<close> and a \<^verbatim>\<open>[]byte\<close> holding text are byte sequences: \<^typ>\<open>string\<close>, whose
  characters are bytes. A \<^verbatim>\<open>[]byte\<close> holding binary data is a list of 8-bit words. A Go function
  returning \<^verbatim>\<open>(T, error)\<close> returns a sum, the error on the left.
\<close>

section \<open>Hex decoding (api/auth.go, hexDecode)\<close>

type_synonym byte = "8 word"

datatype hex_error =
    OddLength                    \<comment> \<open>\<^verbatim>\<open>hex string has odd length\<close>\<close>
  | InvalidHexCharacter char     \<comment> \<open>\<^verbatim>\<open>invalid hex character: %c\<close>\<close>

definition byte_of :: "char \<Rightarrow> byte" where
  "byte_of ch = of_char ch"

text \<open>The \<^verbatim>\<open>switch\<close> of the inner loop: the value of one hex digit.\<close>

definition nibble :: "char \<Rightarrow> hex_error + byte" where
  "nibble ch =
     (let c = byte_of ch in
      if c \<ge> byte_of CHR ''0'' \<and> c \<le> byte_of CHR ''9'' then Inr (c - byte_of CHR ''0'')
      else if c \<ge> byte_of CHR ''a'' \<and> c \<le> byte_of CHR ''f'' then Inr (c - byte_of CHR ''a'' + 10)
      else if c \<ge> byte_of CHR ''A'' \<and> c \<le> byte_of CHR ''F'' then Inr (c - byte_of CHR ''A'' + 10)
      else Inl (InvalidHexCharacter ch))"

text \<open>
  The outer loop \<^verbatim>\<open>for i := 0; i < len(s); i += 2\<close>. Each round reads \<^verbatim>\<open>s[i]\<close> and
  \<^verbatim>\<open>s[i+1]\<close>, starts from \<^verbatim>\<open>b = 0\<close>, shifts and ors the two nibbles in, and stores
  the byte at \<^verbatim>\<open>result[i/2]\<close>; the bytes stored so far are the accumulator. The loop
  is entered with an even length only, so the second equation is reached at the end of
  the string.
\<close>

fun hexDecode_loop :: "string \<Rightarrow> byte list \<Rightarrow> hex_error + byte list" where
  "hexDecode_loop (c0 # c1 # s) result =
     (case nibble c0 of
        Inl e \<Rightarrow> Inl e
      | Inr n0 \<Rightarrow>
          (case nibble c1 of
             Inl e \<Rightarrow> Inl e
           | Inr n1 \<Rightarrow> hexDecode_loop s (result @ [push_bit 4 (push_bit 4 0 OR n0) OR n1])))"
| "hexDecode_loop s result = Inr result"

definition hexDecode :: "string \<Rightarrow> hex_error + byte list" where
  "hexDecode s = (if length s mod 2 \<noteq> 0 then Inl OddLength else hexDecode_loop s [])"

text \<open>
  The repository decodes only. The encoder of the round trip is the usual one: two
  digits per byte, the high nibble first, over an alphabet of sixteen digits.
  \<open>hexEncode\<close> writes lower case (as \<^verbatim>\<open>encoding/hex\<close> does), \<open>hexEncodeUpper\<close> upper
  case. \<open>is_hex\<close> is the character class \<^verbatim>\<open>[0-9a-fA-F]\<close>.
\<close>

definition hexdigit :: "string \<Rightarrow> byte \<Rightarrow> char" where
  "hexdigit alphabet n = alphabet ! unat n"

definition hexEncodeWith :: "string \<Rightarrow> byte list \<Rightarrow> string" where
  "hexEncodeWith alphabet bs =
     concat (map (\<lambda>b. [hexdigit alphabet (drop_bit 4 b), hexdigit alphabet (b AND 15)]) bs)"

definition hexEncode :: "byte list \<Rightarrow> string" where
  "hexEncode = hexEncodeWith ''0123456789abcdef''"

definition hexEncodeUpper :: "byte list \<Rightarrow> string" where
  "hexEncodeUpper = hexEncodeWith ''0123456789ABCDEF''"

definition is_hex :: "char \<Rightarrow> bool" where
  "is_hex c = (c \<in> set ''0123456789abcdefABCDEF'')"

text \<open>The two cases of an ASCII letter; any other byte is left as it is.\<close>

definition ToUpper :: "char \<Rightarrow> char" where
  "ToUpper c =
     (let n = (of_char c :: nat) in if 97 \<le> n \<and> n \<le> 122 then char_of (n - 32) else c)"

definition ToLower :: "char \<Rightarrow> char" where
  "ToLower c =
     (let n = (of_char c :: nat) in if 65 \<le> n \<and> n \<le> 90 then char_of (n + 32) else c)"

section \<open>Token issuance (api/auth.go, GenerateToken)\<close>

subsection \<open>The clock\<close>

text \<open>
  \<^verbatim>\<open>GenerateToken\<close> has one parameter, the admin key. The timestamp of the token is
  read inside the function, from \<^verbatim>\<open>time.Now()\<close>. The embedding makes the reading an
  explicit input: the second argument of \<open>GenerateToken\<close> below is what the clock shows
  when the call runs, not something a caller passes.

  A \<^verbatim>\<open>time.Time\<close> is an instant, kept as a count of nanoseconds since the Unix epoch;
  a \<^verbatim>\<open>time.Duration\<close> is a count of nanoseconds. \<^verbatim>\<open>Unix()\<close> is the instant in whole
  seconds, rounded down. The 64-bit limits of \<^verbatim>\<open>time.Time\<close> lie some hundred
  thousand million years from any reading of a clock and are not modelled.
\<close>

datatype time = Instant (nanos: int)

definition Second :: int where
  "Second = 1000000000"

definition Minute :: int where
  "Minute = 60 * Second"

definition Add :: "time \<Rightarrow> int \<Rightarrow> time" where
  "Add t d = Instant (nanos t + d)"

definition Unix :: "time \<Rightarrow> int" where
  "Unix t = nanos t div Second"

subsection \<open>strings.SplitN\<close>

text \<open>
  \<^verbatim>\<open>strings.SplitN(s, sep, n)\<close> for a separator of one byte: at most \<open>n\<close> substrings,
  the last one the unsplit remainder; \<open>n = 0\<close> gives no substring at all.
\<close>

fun SplitN :: "string \<Rightarrow> char \<Rightarrow> nat \<Rightarrow> string list" where
  "SplitN s sep 0 = []"
| "SplitN s sep (Suc 0) = [s]"
| "SplitN s sep (Suc (Suc n)) =
     (if sep \<in> set s
      then takeWhile (\<lambda>c. c \<noteq> sep) s # SplitN (tl (dropWhile (\<lambda>c. c \<noteq> sep) s)) sep (Suc n)
      else [s])"

subsection \<open>The token library (github.com/golang-jwt/jwt/v5)\<close>

text \<open>
  A \<^verbatim>\<open>jwt.Token\<close> holds a signing method, a header map and a claims map; the values
  stored here are strings and integers. \<^verbatim>\<open>NewWithClaims\<close> fills the header with
  \<^verbatim>\<open>typ\<close> and \<^verbatim>\<open>alg\<close>.

  \<^verbatim>\<open>SignedString\<close> writes the compact serialisation: the JSON of the header and the
  JSON of the claims (object keys in sorted order), each in unpadded URL-safe base64,
  joined by a dot (the signing string); then a dot and the base64 of the signature over
  the signing string. Each of these encoders is a fixed injective function of what it
  encodes, so the embedding keeps the encoded data itself: a signing string is its two
  maps, an HMAC-SHA256 signature is the pair of its key and its message, and a token is
  its signing string with its signature. Equal values of type \<open>jwt\<close> are equal strings
  of bytes, and different ones are different strings.
\<close>

datatype jvalue = JString string | JInt int

datatype SigningMethod = SigningMethodHS256

fun Alg :: "SigningMethod \<Rightarrow> string" where
  "Alg SigningMethodHS256 = ''HS256''"

record Token =
  Method :: SigningMethod
  Header :: "string \<rightharpoonup> jvalue"
  Claims :: "string \<rightharpoonup> jvalue"

definition NewWithClaims :: "SigningMethod \<Rightarrow> (string \<rightharpoonup> jvalue) \<Rightarrow> Token" where
  "NewWithClaims method claims =
     \<lparr>Method = method,
      Header = [''typ'' \<mapsto> JString ''JWT'', ''alg'' \<mapsto> JString (Alg method)],
      Claims = claims\<rparr>"

datatype signing_string =
  SigningString (header_of: "string \<rightharpoonup> jvalue") (claims_of: "string \<rightharpoonup> jvalue")

datatype signature = HMAC_SHA256 (key_of: "byte list") (message_of: signing_string)

datatype jwt = JWT (signing_string_of: signing_string) (signature_of: signature)

fun Sign :: "SigningMethod \<Rightarrow> signing_string \<Rightarrow> byte list \<Rightarrow> signature" where
  "Sign SigningMethodHS256 sstr key = HMAC_SHA256 key sstr"

definition SignedString :: "Token \<Rightarrow> byte list \<Rightarrow> jwt" where
  "SignedString t key =
     (let sstr = SigningString (Header t) (Claims t);
          sig = Sign (Method t) sstr key
      in JWT sstr sig)"

subsection \<open>GenerateToken\<close>

datatype auth_error =
    InvalidKeyFormat             \<comment> \<open>\<^verbatim>\<open>invalid admin key format: expected 'id:secret'\<close>\<close>
  | DecodingSecret hex_error     \<comment> \<open>\<^verbatim>\<open>decoding secret: %w\<close>\<close>

definition GenerateToken :: "string \<Rightarrow> time \<Rightarrow> auth_error + jwt" where
  "GenerateToken adminKey time_Now =
     (let parts = SplitN adminKey CHR '':'' 2 in
      if length parts \<noteq> 2 then Inl InvalidKeyFormat
      else
        let keyID = parts ! 0;
            secret = parts ! 1
        in case hexDecode secret of
             Inl err \<Rightarrow> Inl (DecodingSecret err)
           | Inr secretBytes \<Rightarrow>
               let now = time_Now;
                   claims = [''iat'' \<mapsto> JInt (Unix now),
                             ''exp'' \<mapsto> JInt (Unix (Add now (5 * Minute))),
                             ''aud'' \<mapsto> JString ''/admin/''];
                   token = NewWithClaims SigningMethodHS256 claims;
                   token = token\<lparr>Header := (Header token)(''kid'' \<mapsto> JString keyID)\<rparr>
               in Inr (SignedString token secretBytes))"

subsection \<open>The token of a key and a second\<close>

text \<open>
  The header, the claims and the token that the properties below speak of: the token
  for a key identifier, the bytes of a secret and a Unix second.
\<close>

definition issued_header :: "string \<Rightarrow> string \<rightharpoonup> jvalue" where
  "issued_header keyID =
     [''typ'' \<mapsto> JString ''JWT'', ''alg'' \<mapsto> JString ''HS256'', ''kid'' \<mapsto> JString keyID]"

definition issued_claims :: "int \<Rightarrow> string \<rightharpoonup> jvalue" where
  "issued_claims sec =
     [''iat'' \<mapsto> JInt sec, ''exp'' \<mapsto> JInt (sec + 300), ''aud'' \<mapsto> JString ''/admin/'']"

definition issued :: "string \<Rightarrow> byte list \<Rightarrow> int \<Rightarrow> jwt" where
  "issued keyID secretBytes sec =
     JWT (SigningString (issued_header keyID) (issued_claims sec))
         (HMAC_SHA256 secretBytes (SigningString (issued_header keyID) (issued_claims sec)))"

section \<open>The request pipeline (api/client.go)\<close>

subsection \<open>Data\<close>

record Client =
  baseURL :: string
  key :: string

record APIErrorItem =
  Message :: string
  Context :: string
  Type :: string

record APIError =
  Errors :: "APIErrorItem list"

text \<open>The anonymous struct that \<^verbatim>\<open>UploadImage\<close> decodes the response into.\<close>

record Image =
  URL :: string
  Ref :: string

record UploadResult =
  Images :: "Image list"

text \<open>
  A multipart body is the boundary the writer drew and the parts written, in order:
  the form file (field name, file name, content) and form fields (name, value).
\<close>

datatype part = FormFile string string string | FormField string string

record multipart_form =
  Boundary :: string
  Parts :: "part list"

datatype req_body = NoBody | JSONBody string | MultipartBody multipart_form

text \<open>A header value: the text \<^verbatim>\<open>"Ghost " + token\<close>, or plain text.\<close>

datatype header_value = Ghost jwt | Plain string

record request =
  req_Method :: string
  req_URL :: string
  req_Header :: "string \<rightharpoonup> header_value"
  req_Body :: req_body

text \<open>
  A response as the pipeline reads it: the status code, and what
  \<^verbatim>\<open>io.ReadAll(resp.Body)\<close> returns, an error or the bytes of the body.
\<close>

record response =
  StatusCode :: int
  Body :: "string + string"

subsection \<open>The environment of a call\<close>

text \<open>
  What a call reads from outside the program, and the library functions it calls, are
  the fields of an environment: the clock; the network (\<^verbatim>\<open>c.http.Do\<close>); the file
  system (\<^verbatim>\<open>os.Open\<close> with the read done by \<^verbatim>\<open>io.Copy\<close>: an error of opening, an
  error of reading, or the content); the boundary \<^verbatim>\<open>multipart.NewWriter\<close> draws at
  random; the check of method and URL made by \<^verbatim>\<open>http.NewRequest\<close>;
  \<^verbatim>\<open>json.Marshal\<close> on the request body (of any type \<open>'b\<close>); and \<^verbatim>\<open>json.Unmarshal\<close>
  into a fresh \<^verbatim>\<open>APIError\<close> and into a fresh upload result. A library error is its
  message.
\<close>

record 'b env =
  time_Now :: time
  http_Do :: "request \<Rightarrow> string + response"
  os_Open :: "string \<Rightarrow> string + (string + string)"
  multipart_boundary :: string
  http_NewRequest_error :: "string \<Rightarrow> string \<Rightarrow> string option"
  json_Marshal :: "'b \<Rightarrow> string + string"
  unmarshal_APIError :: "string \<Rightarrow> string + APIError"
  unmarshal_UploadResult :: "string \<Rightarrow> string + UploadResult"

datatype api_error =
    GeneratingToken auth_error   \<comment> \<open>\<^verbatim>\<open>generating token: %w\<close>\<close>
  | MarshalingBody string        \<comment> \<open>\<^verbatim>\<open>marshaling body: %w\<close>\<close>
  | CreatingRequest string       \<comment> \<open>\<^verbatim>\<open>creating request: %w\<close>\<close>
  | RequestFailed string         \<comment> \<open>\<^verbatim>\<open>request failed: %w\<close>\<close>
  | ReadingResponse string       \<comment> \<open>\<^verbatim>\<open>reading response: %w\<close>\<close>
  | ErrAPI APIError              \<comment> \<open>the decoded \<^verbatim>\<open>&apiErr\<close>\<close>
  | ErrStatus string int         \<comment> \<open>\<^verbatim>\<open>API error: %s (status %d)\<close>\<close>
  | OpeningFile string           \<comment> \<open>\<^verbatim>\<open>opening file: %w\<close>\<close>
  | CopyingFile string           \<comment> \<open>\<^verbatim>\<open>copying file: %w\<close>\<close>
  | UploadFailed string          \<comment> \<open>\<^verbatim>\<open>upload failed: %w\<close>\<close>
  | UploadError string           \<comment> \<open>\<^verbatim>\<open>upload error: %s\<close>\<close>
  | ParsingResponse string       \<comment> \<open>\<^verbatim>\<open>parsing response: %w\<close>\<close>
  | NoImageURL                   \<comment> \<open>\<^verbatim>\<open>no image URL in response\<close>\<close>

definition apiURL :: "Client \<Rightarrow> string \<Rightarrow> string" where
  "apiURL c path = baseURL c @ ''/ghost/api/admin'' @ path"

definition NewRequest :: "'b env \<Rightarrow> string \<Rightarrow> string \<Rightarrow> req_body \<Rightarrow> string + request" where
  "NewRequest env method url body =
     (case http_NewRequest_error env method url of
        Some err \<Rightarrow> Inl err
      | None \<Rightarrow> Inr \<lparr>req_Method = method, req_URL = url, req_Header = Map.empty, req_Body = body\<rparr>)"

definition Header_Set :: "request \<Rightarrow> string \<Rightarrow> header_value \<Rightarrow> request" where
  "Header_Set req k v = req\<lparr>req_Header := (req_Header req)(k \<mapsto> v)\<rparr>"

subsection \<open>doRequest\<close>

text \<open>Lines 60 to 83: the token, the body, the request and its headers.\<close>

definition doRequest_build ::
  "'b env \<Rightarrow> Client \<Rightarrow> string \<Rightarrow> string \<Rightarrow> 'b option \<Rightarrow> api_error + request" where
  "doRequest_build env c method path body =
     (case GenerateToken (key c) (time_Now env) of
        Inl err \<Rightarrow> Inl (GeneratingToken err)
      | Inr token \<Rightarrow>
          (case (case body of
                   None \<Rightarrow> Inr NoBody
                 | Some b \<Rightarrow>
                     (case json_Marshal env b of
                        Inl err \<Rightarrow> Inl (MarshalingBody err)
                      | Inr data \<Rightarrow> Inr (JSONBody data))) of
             Inl e \<Rightarrow> Inl e
           | Inr reqBody \<Rightarrow>
               (case NewRequest env method (apiURL c path) reqBody of
                  Inl err \<Rightarrow> Inl (CreatingRequest err)
                | Inr req \<Rightarrow>
                    let req = Header_Set req ''Authorization'' (Ghost token);
                        req = (if body \<noteq> None
                               then Header_Set req ''Content-Type'' (Plain ''application/json'')
                               else req);
                        req = Header_Set req ''Accept-Version'' (Plain ''v5.0'')
                    in Inr req)))"

text \<open>The whole function: the request is sent, the body read, the response classified.\<close>

definition doRequest ::
  "'b env \<Rightarrow> Client \<Rightarrow> string \<Rightarrow> string \<Rightarrow> 'b option \<Rightarrow> api_error + string" where
  "doRequest env c method path body =
     (case doRequest_build env c method path body of
        Inl e \<Rightarrow> Inl e
      | Inr req \<Rightarrow>
          (case http_Do env req of
             Inl err \<Rightarrow> Inl (RequestFailed err)
           | Inr resp \<Rightarrow>
               (case Body resp of
                  Inl err \<Rightarrow> Inl (ReadingResponse err)
                | Inr respBody \<Rightarrow>
                    if StatusCode resp \<ge> 400 then
                      (case unmarshal_APIError env respBody of
                         Inr apiErr \<Rightarrow>
                           if length (Errors apiErr) > 0 then Inl (ErrAPI apiErr)
                           else Inl (ErrStatus respBody (StatusCode resp))
                       | Inl err \<Rightarrow> Inl (ErrStatus respBody (StatusCode resp)))
                    else Inr respBody)))"

subsection \<open>UploadImage\<close>

text \<open>\<^verbatim>\<open>filepath.Base\<close>, with \<^verbatim>\<open>/\<close> as the separator.\<close>

definition Base :: "string \<Rightarrow> string" where
  "Base path =
     (if path = [] then ''.''
      else
        let path = rev (dropWhile (\<lambda>c. c = CHR ''/'') (rev path));
            path = rev (takeWhile (\<lambda>c. c \<noteq> CHR ''/'') (rev path))
        in if path = [] then ''/'' else path)"

text \<open>
  Lines 133 to 173: the token, the file, the multipart body, the request and its
  headers. The writer writes into a buffer in memory, whose writes do not fail; the
  errors left are those of the token, of the file and of the request.
\<close>

definition UploadImage_build ::
  "'b env \<Rightarrow> Client \<Rightarrow> string \<Rightarrow> string \<Rightarrow> api_error + request" where
  "UploadImage_build env c filePath ref =
     (case GenerateToken (key c) (time_Now env) of
        Inl err \<Rightarrow> Inl (GeneratingToken err)
      | Inr token \<Rightarrow>
          (case os_Open env filePath of
             Inl err \<Rightarrow> Inl (OpeningFile err)
           | Inr file \<Rightarrow>
               (case file of
                  Inl err \<Rightarrow> Inl (CopyingFile err)
                | Inr content \<Rightarrow>
                    let parts = [FormFile ''file'' (Base filePath) content];
                        parts = (if ref \<noteq> [] then parts @ [FormField ''ref'' ref] else parts);
                        body = \<lparr>Boundary = multipart_boundary env, Parts = parts\<rparr>
                    in (case NewRequest env ''POST'' (apiURL c ''/images/upload/'')
                               (MultipartBody body) of
                          Inl err \<Rightarrow> Inl (CreatingRequest err)
                        | Inr req \<Rightarrow>
                            let req = Header_Set req ''Authorization'' (Ghost token);
                                req = Header_Set req ''Content-Type''
                                        (Plain (''multipart/form-data; boundary='' @ Boundary body));
                                req = Header_Set req ''Accept-Version'' (Plain ''v5.0'')
                            in Inr req))))"

definition UploadImage :: "'b env \<Rightarrow> Client \<Rightarrow> string \<Rightarrow> string \<Rightarrow> api_error + string" where
  "UploadImage env c filePath ref =
     (case UploadImage_build env c filePath ref of
        Inl e \<Rightarrow> Inl e
      | Inr req \<Rightarrow>
          (case http_Do env req of
             Inl err \<Rightarrow> Inl (UploadFailed err)
           | Inr resp \<Rightarrow>
               (case Body resp of
                  Inl err \<Rightarrow> Inl (ReadingResponse err)
                | Inr respBody \<Rightarrow>
                    if StatusCode resp \<ge> 400 then
                      (case unmarshal_APIError env respBody of
                         Inr apiErr \<Rightarrow>
                           if length (Errors apiErr) > 0 then Inl (ErrAPI apiErr)
                           else Inl (UploadError respBody)
                       | Inl err \<Rightarrow> Inl (UploadError respBody))
                    else
                      (case unmarshal_UploadResult env respBody of
                         Inl err \<Rightarrow> Inl (ParsingResponse err)
                       | Inr result \<Rightarrow>
                           if length (Images result) = 0 then Inl NoImageURL
                           else Inr (URL (Images result ! 0))))))"

subsection \<open>An environment for running the pipeline on examples\<close>

text \<open>
  The outcomes of \<^verbatim>\<open>json.Unmarshal\<close> on the response bodies of the examples: a body
  of the table decodes to the value beside it; any other text stands for a body that is
  not JSON.
\<close>

definition unmarshal_APIError_examples :: "string \<Rightarrow> string + APIError" where
  \<open>unmarshal_APIError_examples body =
     (if body = ''{"errors":[{"message":"Not found"}]}''
        then Inr \<lparr>Errors = [\<lparr>Message = ''Not found'', Context = [], Type = []\<rparr>]\<rparr>
      else if body = ''{"errors":[]}'' \<or> body = ''{}'' then Inr \<lparr>Errors = []\<rparr>
      else Inl ''invalid character looking for beginning of value'')\<close>

definition unmarshal_UploadResult_examples :: "string \<Rightarrow> string + UploadResult" where
  \<open>unmarshal_UploadResult_examples body =
     (if body = ''{"images":[{"url":"https://example.com/a.png","ref":"a"}]}''
        then Inr \<lparr>Images = [\<lparr>URL = ''https://example.com/a.png'', Ref = ''a''\<rparr>]\<rparr>
      else if body = ''{"images":[{"url":""}]}'' then Inr \<lparr>Images = [\<lparr>URL = [], Ref = []\<rparr>]\<rparr>
      else if body = ''{"images":[]}'' \<or> body = ''{}'' then Inr \<lparr>Images = []\<rparr>
      else Inl ''invalid character looking for beginning of value'')\<close>

text \<open>
  An environment in which the server answers every request with the given status and
  body, the file to upload is readable, and requests are well formed.
\<close>

definition env_answering :: "int \<Rightarrow> string \<Rightarrow> unit env" where
  "env_answering status body =
     \<lparr>time_Now = Instant 1700000000000000000,
      http_Do = (\<lambda>req. Inr \<lparr>StatusCode = status, Body = Inr body\<rparr>),
      os_Open = (\<lambda>path. Inr (Inr ''GIF89a'')),
      multipart_boundary = ''5f1c0a'',
      http_NewRequest_error = (\<lambda>method url. None),
      json_Marshal = (\<lambda>b. Inr ''null''),
      unmarshal_APIError = unmarshal_APIError_examples,
      unmarshal_UploadResult = unmarshal_UploadResult_examples\<rparr>"

definition example_client :: Client where
  "example_client = \<lparr>baseURL = ''https://blog.example.com'', key = ''abc123:deadbeef''\<rparr>"

section \<open>Listing all posts (package cmd, runPostsList)\<close>

record Config =
  cfg_URL :: string
  cfg_Key :: string

definition TrimSuffix :: "string \<Rightarrow> string \<Rightarrow> string" where
  "TrimSuffix s suffix =
     (if length suffix \<le> length s \<and> drop (length s - length suffix) s = suffix
      then take (length s - length suffix) s
      else s)"

definition NewClient :: "Config \<Rightarrow> Client" where
  "NewClient cfg = \<lparr>baseURL = TrimSuffix (cfg_URL cfg) ''/'', key = cfg_Key cfg\<rparr>"

text \<open>
  Of \<^verbatim>\<open>postsResponse\<close> the function reads the posts and
  \<^verbatim>\<open>Meta.Pagination.Next\<close>. The walk does not look into a post, so the type of posts
  is a parameter.
\<close>

record 'p postsResponse =
  Posts :: "'p list"
  Next :: int

text \<open>\<^verbatim>\<open>fmt.Sprintf("%d", n)\<close>: the decimal digits of an integer.\<close>

function decimal :: "nat \<Rightarrow> string" where
  "decimal n =
     (if n < 10 then [''0123456789'' ! n]
      else decimal (n div 10) @ [''0123456789'' ! (n mod 10)])"
  by pat_completeness auto
termination
  by (relation "measure id") auto

definition Sprintf_d :: "int \<Rightarrow> string" where
  "Sprintf_d i = (if i < 0 then CHR ''-'' # decimal (nat (- i)) else decimal (nat i))"

datatype posts_error =
    ConfigError string       \<comment> \<open>the error of \<^verbatim>\<open>config.Load\<close>\<close>
  | ClientError api_error    \<comment> \<open>the error of \<^verbatim>\<open>client.Get\<close>\<close>
  | ParsingPosts string      \<comment> \<open>\<^verbatim>\<open>parsing response: %w\<close>\<close>

text \<open>
  \<^verbatim>\<open>client.Get\<close> is seen from the command as a call that takes a path and the query
  parameters set on \<^verbatim>\<open>url.Values\<close>, changes the state \<open>'s\<close> of the world beyond the
  program (the server, the network) and returns bytes or an error.
\<close>

type_synonym 's client_get =
  "Client \<Rightarrow> string \<Rightarrow> (string \<times> string) list \<Rightarrow> 's \<Rightarrow> (api_error + string) \<times> 's"

text \<open>
  The \<^verbatim>\<open>for\<close> loop of the \<^verbatim>\<open>--all\<close> branch. Nothing bounds the number of rounds:
  the loop runs until a page reports no next page, or a call fails. A walk that does not
  end has the value \<open>None\<close>.
\<close>

partial_function (option) posts_loop ::
  "'s client_get \<Rightarrow> (string \<Rightarrow> string + 'p postsResponse) \<Rightarrow> Client \<Rightarrow> int \<Rightarrow> 'p list \<Rightarrow> 's \<Rightarrow>
   ((posts_error + 'p list) \<times> 's) option" where
  "posts_loop client_Get unmarshal client page allPosts s =
     (let params = [(''limit'', ''100''), (''page'', Sprintf_d page)] in
      case client_Get client ''/posts/'' params s of
        (Inl err, s') \<Rightarrow> Some (Inl (ClientError err), s')
      | (Inr data, s') \<Rightarrow>
          (case unmarshal data of
             Inl err \<Rightarrow> Some (Inl (ParsingPosts err), s')
           | Inr resp \<Rightarrow>
               let allPosts = allPosts @ Posts resp in
               if Next resp = 0 then Some (Inr allPosts, s')
               else posts_loop client_Get unmarshal client (Next resp) allPosts s'))"

text \<open>The flags of the command, package variables in the source.\<close>

record flags =
  postsLimit :: int
  postsPage :: int
  postsAll :: bool

text \<open>
  \<open>runPostsList\<close> up to the point where the posts are printed: the result is the list
  handed to the printer, or the error returned before. Its first argument is what
  \<^verbatim>\<open>config.Load()\<close> returns.
\<close>

definition runPostsList ::
  "(string + Config) \<Rightarrow> flags \<Rightarrow> 's client_get \<Rightarrow> (string \<Rightarrow> string + 'p postsResponse) \<Rightarrow> 's \<Rightarrow>
   ((posts_error + 'p list) \<times> 's) option" where
  "runPostsList config_Load fl client_Get unmarshal s =
     (case config_Load of
        Inl err \<Rightarrow> Some (Inl (ConfigError err), s)
      | Inr cfg \<Rightarrow>
          let client = NewClient cfg in
          if postsAll fl then posts_loop client_Get unmarshal client 1 [] s
          else
            (let params = [(''limit'', Sprintf_d (postsLimit fl)),
                           (''page'', Sprintf_d (postsPage fl))] in
             case client_Get client ''/posts/'' params s of
               (Inl err, s') \<Rightarrow> Some (Inl (ClientError err), s')
             | (Inr data, s') \<Rightarrow>
                 (case unmarshal data of
                    Inl err \<Rightarrow> Some (Inl (ParsingPosts err), s')
                  | Inr resp \<Rightarrow> Some (Inr (Posts resp), s'))))"

subsection \<open>A scripted server\<close>

text \<open>
  A stub server holds the responses it will give, one for each call in turn, and keeps
  a log of the calls made to it. With no response left it refuses the connection.
\<close>

record stub =
  pending :: "string list"
  calls :: "(string \<times> (string \<times> string) list) list"

definition stub_Get :: "stub client_get" where
  "stub_Get client path params s =
     (case pending s of
        [] \<Rightarrow> (Inl (RequestFailed ''connection refused''),
               s\<lparr>calls := calls s @ [(path, params)]\<rparr>)
      | r # rs \<Rightarrow> (Inr r, \<lparr>pending = rs, calls = calls s @ [(path, params)]\<rparr>))"

text \<open>The request the walk makes for a cursor.\<close>

definition page_request :: "int \<Rightarrow> string \<times> (string \<times> string) list" where
  "page_request cursor = (''/posts/'', [(''limit'', ''100''), (''page'', Sprintf_d cursor)])"

text \<open>The two pages of the example, with items that are numbers.\<close>

definition unmarshal_posts_examples :: "string \<Rightarrow> string + nat postsResponse" where
  \<open>unmarshal_posts_examples data =
     (if data = ''{"posts":[1,2],"meta":{"pagination":{"next":2}}}''
        then Inr \<lparr>Posts = [1, 2], Next = 2\<rparr>
      else if data = ''{"posts":[3],"meta":{"pagination":{"next":0}}}''
        then Inr \<lparr>Posts = [3], Next = 0\<rparr>
      else Inl ''invalid character looking for beginning of value'')\<close>

section \<open>The frontmatter parser (package content, Parse)\<close>

subsection \<open>bufio.Scanner over the input\<close>

text \<open>
  The scanner splits with \<^verbatim>\<open>bufio.ScanLines\<close>: a line ends at a newline, which is not
  part of it; a last line without a newline is a line if it is not empty. The buffer of
  a scanner holds at most \<open>MaxScanTokenSize\<close> bytes, and a line must reach its end
  inside the buffer: at the first line of that many bytes or more, \<^verbatim>\<open>Scan\<close> returns
  false and \<^verbatim>\<open>Err\<close> is \<^verbatim>\<open>ErrTooLong\<close> from then on. (A call of \<^verbatim>\<open>Scan\<close> made after
  that hands out what the buffer holds; \<open>Parse\<close> then returns an error whatever it
  has read, so such a token is never part of a result.)
\<close>

definition MaxScanTokenSize :: nat where
  "MaxScanTokenSize = 64 * 1024"

fun split_lines :: "string \<Rightarrow> string \<Rightarrow> string list" where
  "split_lines cur [] = (if cur = [] then [] else [cur])"
| "split_lines cur (c # data) =
     (if c = CHR 0x0A then cur # split_lines [] data else split_lines (cur @ [c]) data)"

text \<open>\<^verbatim>\<open>dropCR\<close>: a token loses one carriage return at its end.\<close>

definition dropCR :: "string \<Rightarrow> string" where
  "dropCR data = (if data \<noteq> [] \<and> last data = CHR 0x0D then butlast data else data)"

text \<open>
  The scanner of an input, as what its calls of \<^verbatim>\<open>Scan\<close> give: the tokens, one for
  each call that returns true, and whether scanning stopped at a line that is too long
  (then \<^verbatim>\<open>Err\<close> is not nil) rather than at the end of the input.
\<close>

record scanner =
  tokens :: "string list"
  too_long :: bool

definition NewScanner :: "string \<Rightarrow> scanner" where
  "NewScanner data =
     (let ls = split_lines [] data in
      \<lparr>tokens = map dropCR (takeWhile (\<lambda>l. length l < MaxScanTokenSize) ls),
       too_long = list_ex (\<lambda>l. length l \<ge> MaxScanTokenSize) ls\<rparr>)"

subsection \<open>strings.TrimSpace\<close>

text \<open>
  The code points with the Unicode property White_Space, in UTF-8. \<^verbatim>\<open>TrimSpace\<close>
  removes the longest run of them at the start of the string, then the longest run at
  the end of what is left.
\<close>

definition white_space :: "string list" where
  "white_space =
     [[CHR 0x09], [CHR 0x0A], [CHR 0x0B], [CHR 0x0C], [CHR 0x0D], [CHR 0x20],
      [CHR 0xC2, CHR 0x85], [CHR 0xC2, CHR 0xA0],
      [CHR 0xE1, CHR 0x9A, CHR 0x80],
      [CHR 0xE2, CHR 0x80, CHR 0x80], [CHR 0xE2, CHR 0x80, CHR 0x81],
      [CHR 0xE2, CHR 0x80, CHR 0x82], [CHR 0xE2, CHR 0x80, CHR 0x83],
      [CHR 0xE2, CHR 0x80, CHR 0x84], [CHR 0xE2, CHR 0x80, CHR 0x85],
      [CHR 0xE2, CHR 0x80, CHR 0x86], [CHR 0xE2, CHR 0x80, CHR 0x87],
      [CHR 0xE2, CHR 0x80, CHR 0x88], [CHR 0xE2, CHR 0x80, CHR 0x89],
      [CHR 0xE2, CHR 0x80, CHR 0x8A],
      [CHR 0xE2, CHR 0x80, CHR 0xA8], [CHR 0xE2, CHR 0x80, CHR 0xA9],
      [CHR 0xE2, CHR 0x80, CHR 0xAF],
      [CHR 0xE2, CHR 0x81, CHR 0x9F],
      [CHR 0xE3, CHR 0x80, CHR 0x80]]"

text \<open>The number of bytes of the white space that \<open>s\<close> starts with, 0 if it starts with none.\<close>

definition space_width :: "string list \<Rightarrow> string \<Rightarrow> nat" where
  "space_width ws s =
     (case find (\<lambda>w. w \<noteq> [] \<and> take (length w) s = w) ws of
        None \<Rightarrow> 0
      | Some w \<Rightarrow> length w)"

function trim_prefix :: "string list \<Rightarrow> string \<Rightarrow> string" where
  "trim_prefix ws s =
     (if space_width ws s = 0 then s else trim_prefix ws (drop (space_width ws s) s))"
  by pat_completeness auto
termination
proof (relation "measure (\<lambda>(ws, s). length s)")
  show "wf (measure (\<lambda>(ws, s). length s))" by simp
next
  fix ws :: "string list" and s :: string
  have "space_width ws [] = 0"
    by (auto simp: space_width_def find_Some_iff split: option.splits)
  moreover assume "space_width ws s \<noteq> 0"
  ultimately have "s \<noteq> []" by auto
  with \<open>space_width ws s \<noteq> 0\<close> show "((ws, drop (space_width ws s) s), (ws, s)) \<in> measure (\<lambda>(ws, s). length s)"
    by simp
qed

definition TrimSpace :: "string \<Rightarrow> string" where
  "TrimSpace s = rev (trim_prefix (map rev white_space) (rev (trim_prefix white_space s)))"

subsection \<open>Parse\<close>

record Frontmatter =
  Title :: string
  Slug :: string
  Tags :: "string list"
  Featured :: bool
  Status :: string
  Excerpt :: string
  MetaTitle :: string
  MetaDesc :: string
  FeatureImg :: string
  PublishedAt :: string

text \<open>The zero value of the struct: what \<^verbatim>\<open>&ParsedContent{}\<close> starts with.\<close>

definition zero_Frontmatter :: Frontmatter where
  "zero_Frontmatter =
     \<lparr>Title = [], Slug = [], Tags = [], Featured = False, Status = [], Excerpt = [],
      MetaTitle = [], MetaDesc = [], FeatureImg = [], PublishedAt = []\<rparr>"

record ParsedContent =
  Frontmatter :: Frontmatter
  HTML :: string
  Markdown :: string

datatype parse_error =
    ParsingFrontmatter string    \<comment> \<open>\<^verbatim>\<open>parsing frontmatter: %w\<close>\<close>
  | ScanningContent              \<comment> \<open>\<^verbatim>\<open>scanning content: %w\<close>, of \<^verbatim>\<open>ErrTooLong\<close>\<close>
  | ConvertingMarkdown string    \<comment> \<open>\<^verbatim>\<open>converting markdown: %w\<close>\<close>

text \<open>
  The first loop, over the tokens left after the opening line: lines are written to the
  frontmatter buffer until a line that trims to \<^verbatim>\<open>---\<close>, or until \<^verbatim>\<open>Scan\<close> returns
  false. It returns the buffer and the tokens not yet read.
\<close>

fun frontmatter_loop :: "string list \<Rightarrow> string \<Rightarrow> string \<times> string list" where
  "frontmatter_loop [] frontmatterBuf = (frontmatterBuf, [])"
| "frontmatter_loop (line # rest) frontmatterBuf =
     (if TrimSpace line = ''---'' then (frontmatterBuf, rest)
      else frontmatter_loop rest (frontmatterBuf @ line @ ''\<newline>''))"

text \<open>The second loop: every token left goes to the markdown buffer, with a newline.\<close>

fun markdown_loop :: "string list \<Rightarrow> string \<Rightarrow> string" where
  "markdown_loop [] markdownBuf = markdownBuf"
| "markdown_loop (line # rest) markdownBuf = markdown_loop rest (markdownBuf @ line @ ''\<newline>'')"

text \<open>
  \<open>Parse\<close>. The two libraries are parameters: \<open>yaml_Unmarshal\<close> is
  \<^verbatim>\<open>yaml.Unmarshal\<close> into the zero \<^verbatim>\<open>Frontmatter\<close>, \<open>goldmark_Convert\<close> is the
  conversion of \<^verbatim>\<open>goldmark.New()\<close>. The condition of the \<^verbatim>\<open>if\<close> calls \<^verbatim>\<open>Scan\<close>
  once, whatever the first line is; the second loop goes on from the scanner as the
  first part left it. \<^verbatim>\<open>scanner.Err()\<close> is looked at after the second loop only.
\<close>

definition Parse ::
  "(string \<Rightarrow> string + Frontmatter) \<Rightarrow> (string \<Rightarrow> string + string) \<Rightarrow> string \<Rightarrow>
   parse_error + ParsedContent" where
  "Parse yaml_Unmarshal goldmark_Convert data =
     (let scanner = NewScanner data in
      case (case tokens scanner of
              [] \<Rightarrow> Inr (zero_Frontmatter, [])
            | first # rest \<Rightarrow>
                if TrimSpace first = ''---'' then
                  (let (frontmatterBuf, rest) = frontmatter_loop rest [] in
                   case yaml_Unmarshal frontmatterBuf of
                     Inl err \<Rightarrow> Inl (ParsingFrontmatter err)
                   | Inr fm \<Rightarrow> Inr (fm, rest))
                else Inr (zero_Frontmatter, rest)) of
        Inl e \<Rightarrow> Inl e
      | Inr (fm, rest) \<Rightarrow>
          let markdownBuf = markdown_loop rest [] in
          if too_long scanner then Inl ScanningContent
          else
            (case goldmark_Convert markdownBuf of
               Inl err \<Rightarrow> Inl (ConvertingMarkdown err)
             | Inr html \<Rightarrow> Inr \<lparr>Frontmatter = fm, HTML = html, Markdown = markdownBuf\<rparr>))"

subsection \<open>The libraries on the documents of the examples\<close>

text \<open>
  The outcomes of \<^verbatim>\<open>yaml.Unmarshal\<close> and of the markdown conversion on the metadata
  blocks and the bodies of the examples below; a text outside the table stands for one
  the library rejects.
\<close>

definition yaml_Unmarshal_examples :: "string \<Rightarrow> string + Frontmatter" where
  "yaml_Unmarshal_examples buf =
     (if buf = [] then Inr zero_Frontmatter
      else if buf = ''title: Hi\<newline>'' then Inr (zero_Frontmatter\<lparr>Title := ''Hi''\<rparr>)
      else Inl ''yaml: unmarshal error'')"

definition goldmark_Convert_examples :: "string \<Rightarrow> string + string" where
  "goldmark_Convert_examples source =
     (if source = [] then Inr []
      else if source = ''World\<newline>'' then Inr ''<p>World</p>\<newline>''
      else if source = ''Hello\<newline>World\<newline>'' then Inr ''<p>Hello\<newline>World</p>\<newline>''
      else if source = ''Body text\<newline>'' then Inr ''<p>Body text</p>\<newline>''
      else Inl ''conversion error'')"

section \<open>Properties of hexDecode\<close>

lemma unat_byte_of: "unat (byte_of c) = of_char c"
proof -
  have "byte_of c = of_nat (of_char c)"
    by (simp add: byte_of_def of_nat_of_char)
  moreover have "(of_char c :: nat) < 256" by simp
  ultimately show ?thesis by (simp add: unat_of_nat)
qed

lemma byte_of_consts:
  "byte_of CHR ''0'' = 48" "byte_of CHR ''9'' = 57"
  "byte_of CHR ''a'' = 97" "byte_of CHR ''f'' = 102"
  "byte_of CHR ''A'' = 65" "byte_of CHR ''F'' = 70"
  by (simp_all add: byte_of_def)

text \<open>The digit ranges, read on the character codes.\<close>

lemma nibble_code:
  "nibble ch =
     (let c = (of_char ch :: nat) in
      if 48 \<le> c \<and> c \<le> 57 then Inr (of_nat (c - 48))
      else if 97 \<le> c \<and> c \<le> 102 then Inr (of_nat (c - 87))
      else if 65 \<le> c \<and> c \<le> 70 then Inr (of_nat (c - 55))
      else Inl (InvalidHexCharacter ch))"
proof -
  have eq: "byte_of ch = of_nat (of_char ch)"
    by (simp add: byte_of_def of_nat_of_char)
  show ?thesis
    unfolding nibble_def Let_def byte_of_consts word_le_nat_alt unat_byte_of
    by (auto simp: eq of_nat_diff)
qed

lemma char_code_iff: "(c = d) = ((of_char c :: nat) = of_char d)"
  by (simp add: of_char_eq_iff)

lemma is_hex_code:
  "is_hex ch =
     (let c = (of_char ch :: nat) in
      (48 \<le> c \<and> c \<le> 57) \<or> (97 \<le> c \<and> c \<le> 102) \<or> (65 \<le> c \<and> c \<le> 70))"
  unfolding is_hex_def Let_def
  apply (simp add: char_code_iff [of ch])
  apply arith
  done

lemma isl_nibble: "isl (nibble c) = (\<not> is_hex c)"
  by (auto simp: nibble_code is_hex_code Let_def)

lemma nibble_lower_digit:
  assumes "unat n < 16"
  shows "nibble (hexdigit ''0123456789abcdef'' n) = Inr n"
proof -
  from assms have mem: "unat n \<in> {0,1,2,3,4,5,6,7,8,9,10,11,12,13,14,15}"
    by simp arith
  have "\<forall>k\<in>{0,1,2,3,4,5,6,7,8,9,10,11,12,13,14,15::nat}.
          nibble (hexdigit ''0123456789abcdef'' (of_nat k)) = Inr (of_nat k)"
    by (simp add: hexdigit_def nibble_def byte_of_def)
  with mem have "nibble (hexdigit ''0123456789abcdef'' (of_nat (unat n))) = Inr (of_nat (unat n))"
    by blast
  then show ?thesis by simp
qed

lemma nibble_upper_digit:
  assumes "unat n < 16"
  shows "nibble (hexdigit ''0123456789ABCDEF'' n) = Inr n"
proof -
  from assms have mem: "unat n \<in> {0,1,2,3,4,5,6,7,8,9,10,11,12,13,14,15}"
    by simp arith
  have "\<forall>k\<in>{0,1,2,3,4,5,6,7,8,9,10,11,12,13,14,15::nat}.
          nibble (hexdigit ''0123456789ABCDEF'' (of_nat k)) = Inr (of_nat k)"
    by (simp add: hexdigit_def nibble_def byte_of_def)
  with mem have "nibble (hexdigit ''0123456789ABCDEF'' (of_nat (unat n))) = Inr (of_nat (unat n))"
    by blast
  then show ?thesis by simp
qed

lemma low_nibble_take_bit: "(b::byte) AND 15 = take_bit 4 b"
  using take_bit_eq_mask [of 4 b] by (simp add: mask_eq_exp_minus_1)

lemma join_nibbles: "push_bit 4 (drop_bit 4 b) OR (b AND 15) = (b::byte)"
  unfolding low_nibble_take_bit by (rule bit_word_eqI) (auto simp: bit_simps)

lemma high_nibble_less: "unat (drop_bit 4 (b::byte)) < 16"
proof -
  have "unat b < 256" using unsigned_less [of b] by simp
  then show ?thesis by (simp add: drop_bit_eq_div unat_div)
qed

lemma low_nibble_less: "unat ((b::byte) AND 15) < 16"
  unfolding low_nibble_take_bit by (simp add: take_bit_eq_mod unat_mod)

lemma hexDecode_loop_hexEncodeWith:
  assumes "\<And>n. unat n < 16 \<Longrightarrow> nibble (hexdigit al n) = Inr n"
  shows "hexDecode_loop (hexEncodeWith al bs) acc = Inr (acc @ bs)"
  using assms
  by (induction bs arbitrary: acc)
     (simp_all add: hexEncodeWith_def high_nibble_less low_nibble_less join_nibbles)

lemma length_hexEncodeWith: "length (hexEncodeWith al bs) = 2 * length bs"
  by (induction bs) (simp_all add: hexEncodeWith_def)

lemma hexDecode_loop_fails:
  "even (length s) \<Longrightarrow> isl (hexDecode_loop s acc) = (\<exists>c\<in>set s. \<not> is_hex c)"
proof (induction s acc rule: hexDecode_loop.induct)
  case (1 c0 c1 s result)
  then show ?case
    using isl_nibble [of c0] isl_nibble [of c1]
    by (auto split: sum.splits)
qed simp_all

lemma hexDecode_loop_length:
  "even (length s) \<Longrightarrow> hexDecode_loop s acc = Inr bs \<Longrightarrow>
   length s + 2 * length acc = 2 * length bs"
  by (induction s acc rule: hexDecode_loop.induct) (auto split: sum.splits)

lemma hexDecode_empty: "hexDecode [] = Inr []"
  by (simp add: hexDecode_def)

lemma of_char_ToUpper:
  "(of_char (ToUpper c) :: nat) =
     (let n = of_char c in if 97 \<le> n \<and> n \<le> 122 then n - 32 else n)"
proof -
  have "(of_char c :: nat) < 256" by simp
  then show ?thesis by (auto simp: ToUpper_def Let_def)
qed

lemma of_char_ToLower:
  "(of_char (ToLower c) :: nat) =
     (let n = of_char c in if 65 \<le> n \<and> n \<le> 90 then n + 32 else n)"
  by (simp add: ToLower_def Let_def)

lemma nibble_ToUpper: "nibble c = Inr n \<Longrightarrow> nibble (ToUpper c) = Inr n"
  by (auto simp: nibble_code of_char_ToUpper Let_def split: if_splits)

lemma nibble_ToLower: "nibble c = Inr n \<Longrightarrow> nibble (ToLower c) = Inr n"
  by (auto simp: nibble_code of_char_ToLower Let_def split: if_splits)

lemma hexDecode_loop_case:
  "hexDecode_loop s acc = Inr out \<Longrightarrow>
   hexDecode_loop (map ToUpper s) acc = Inr out \<and> hexDecode_loop (map ToLower s) acc = Inr out"
proof (induction s acc rule: hexDecode_loop.induct)
  case (1 c0 c1 s result)
  from "1.prems" obtain n0 n1 where n: "nibble c0 = Inr n0" "nibble c1 = Inr n1"
    and r: "hexDecode_loop s (result @ [push_bit 4 (push_bit 4 0 OR n0) OR n1]) = Inr out"
    by (auto split: sum.splits)
  from "1.IH" [OF n r] n show ?case
    by (simp add: nibble_ToUpper nibble_ToLower)
qed simp_all

text \<open>
  C9. \<open>hexDecode\<close> inverts hex encoding, whichever case the digits are written in; it
  fails exactly on a string of odd length or with a character outside
  \<^verbatim>\<open>[0-9a-fA-F]\<close>; a decoded string has two characters for each byte of the result;
  and changing the case of its letters does not change what it decodes to.
\<close>

theorem hexDecode_roundtrip:
  "hexDecode (hexEncode bs) = Inr bs \<and>
   hexDecode (hexEncodeUpper bs) = Inr bs \<and>
   (isl (hexDecode s) \<longleftrightarrow> odd (length s) \<or> (\<exists>c\<in>set s. \<not> is_hex c)) \<and>
   (hexDecode s = Inr out \<longrightarrow>
      length s = 2 * length out \<and>
      hexDecode (map ToUpper s) = Inr out \<and>
      hexDecode (map ToLower s) = Inr out)"
proof (intro conjI impI)
  show "hexDecode (hexEncode bs) = Inr bs"
    using hexDecode_loop_hexEncodeWith [of "''0123456789abcdef''" bs "[]"] nibble_lower_digit
    by (simp add: hexDecode_def hexEncode_def length_hexEncodeWith)
  show "hexDecode (hexEncodeUpper bs) = Inr bs"
    using hexDecode_loop_hexEncodeWith [of "''0123456789ABCDEF''" bs "[]"] nibble_upper_digit
    by (simp add: hexDecode_def hexEncodeUpper_def length_hexEncodeWith)
  show "isl (hexDecode s) \<longleftrightarrow> odd (length s) \<or> (\<exists>c\<in>set s. \<not> is_hex c)"
    using hexDecode_loop_fails [of s "[]"] by (auto simp: hexDecode_def odd_iff_mod_2_eq_one)
next
  assume d: "hexDecode s = Inr out"
  then have e: "even (length s)" and l: "hexDecode_loop s [] = Inr out"
    by (auto simp: hexDecode_def split: if_splits)
  show "length s = 2 * length out"
    using hexDecode_loop_length [OF e l] by simp
  show "hexDecode (map ToUpper s) = Inr out"
    using hexDecode_loop_case [OF l] e by (simp add: hexDecode_def)
  show "hexDecode (map ToLower s) = Inr out"
    using hexDecode_loop_case [OF l] e by (simp add: hexDecode_def)
qed

theorem hexDecode_roundtrip_witness:
  "hexDecode (hexEncode [0xde, 0xad, 0xbe, 0xef]) = Inr [0xde, 0xad, 0xbe, 0xef] \<and>
   hexDecode (hexEncodeUpper [0xde, 0xad, 0xbe, 0xef]) = Inr [0xde, 0xad, 0xbe, 0xef] \<and>
   hexDecode ''DEadBeEf'' = Inr [0xde, 0xad, 0xbe, 0xef] \<and>
   length ''DEadBeEf'' = 2 * length [0xde, 0xad, 0xbe, 0xef :: byte] \<and>
   hexDecode (map ToUpper ''DEadBeEf'') = Inr [0xde, 0xad, 0xbe, 0xef] \<and>
   hexDecode (map ToLower ''DEadBeEf'') = Inr [0xde, 0xad, 0xbe, 0xef] \<and>
   isl (hexDecode ''DEadBeEf'') = (odd (length ''DEadBeEf'') \<or> (\<exists>c\<in>set ''DEadBeEf''. \<not> is_hex c))"
proof -
  have d: "hexDecode ''DEadBeEf'' = Inr [0xde, 0xad, 0xbe, 0xef]"
    by (simp add: hexDecode_def nibble_def byte_of_def)
  from hexDecode_roundtrip [of "[0xde, 0xad, 0xbe, 0xef]" "''DEadBeEf''" "[0xde, 0xad, 0xbe, 0xef]"] d
  show ?thesis by blast
qed

section \<open>Properties of GenerateToken\<close>

lemma SplitN_2:
  "SplitN s sep 2 =
     (if sep \<in> set s
      then [takeWhile (\<lambda>c. c \<noteq> sep) s, tl (dropWhile (\<lambda>c. c \<noteq> sep) s)]
      else [s])"
  by (simp add: numeral_2_eq_2)

text \<open>Only the first separator splits: what follows it is the second part, whole.\<close>

lemma SplitN_2_first:
  assumes "sep \<notin> set a"
  shows "SplitN (a @ sep # b) sep 2 = [a, b]"
proof -
  from assms have "\<forall>x\<in>set a. x \<noteq> sep" by auto
  then have "takeWhile (\<lambda>c. c \<noteq> sep) (a @ sep # b) = a"
    and "dropWhile (\<lambda>c. c \<noteq> sep) (a @ sep # b) = sep # b"
    by (simp_all add: takeWhile_append2 dropWhile_append2)
  then show ?thesis by (simp add: SplitN_2)
qed

lemma Unix_Add_5_Minute: "Unix (Add t (5 * Minute)) = Unix t + 300"
  by (simp add: Add_def Unix_def Minute_def Second_def)

lemma GenerateToken_split:
  assumes "CHR '':'' \<notin> set keyID"
  shows "GenerateToken (keyID @ CHR '':'' # secret) now =
           (case hexDecode secret of
              Inl err \<Rightarrow> Inl (DecodingSecret err)
            | Inr secretBytes \<Rightarrow> Inr (issued keyID secretBytes (Unix now)))"
  using assms
  by (simp add: GenerateToken_def SplitN_2_first Let_def Unix_Add_5_Minute NewWithClaims_def
      SignedString_def issued_def issued_header_def issued_claims_def split: sum.splits)

lemma GenerateToken_no_colon:
  "CHR '':'' \<notin> set adminKey \<Longrightarrow> GenerateToken adminKey now = Inl InvalidKeyFormat"
  by (simp add: GenerateToken_def SplitN_2)

lemma GenerateToken_with_colon:
  "CHR '':'' \<in> set adminKey \<Longrightarrow> GenerateToken adminKey now \<noteq> Inl InvalidKeyFormat"
  by (simp add: GenerateToken_def SplitN_2 Let_def split: sum.splits)

lemma issued_claims_iat: "issued_claims sec ''iat'' = Some (JInt sec)"
  by (simp add: issued_claims_def)

lemma issued_inject: "issued keyID secretBytes a = issued keyID secretBytes b \<Longrightarrow> a = b"
proof -
  assume "issued keyID secretBytes a = issued keyID secretBytes b"
  then have "issued_claims a = issued_claims b"
    by (simp add: issued_def)
  then have "issued_claims a ''iat'' = issued_claims b ''iat''"
    by simp
  then show "a = b" by (simp add: issued_claims_iat)
qed

lemma hexDecode_deadbeef: "hexDecode ''deadbeef'' = Inr [0xde, 0xad, 0xbe, 0xef]"
  by (simp add: hexDecode_def nibble_def byte_of_def)

lemma GenerateToken_example:
  "GenerateToken ''abc123:deadbeef'' now = Inr (issued ''abc123'' [0xde, 0xad, 0xbe, 0xef] (Unix now))"
  using GenerateToken_split [of "''abc123''" "''deadbeef''" now]
  by (simp add: hexDecode_deadbeef)

text \<open>
  C3, as the code has it. \<open>GenerateToken\<close> is not given a timestamp: it reads the clock.
  Its result is fixed by the admin key and by the second the clock shows, and by nothing
  else; for a key that is accepted, two calls return the same token exactly when the
  clock shows the same second in both.
\<close>

theorem GenerateToken_same_second:
  "(Unix t1 = Unix t2 \<longrightarrow> GenerateToken adminKey t1 = GenerateToken adminKey t2) \<and>
   (GenerateToken adminKey t1 = GenerateToken adminKey t2 \<longrightarrow>
      isl (GenerateToken adminKey t1) \<or> Unix t1 = Unix t2)"
proof (cases "CHR '':'' \<in> set adminKey")
  case False
  then show ?thesis by (simp add: GenerateToken_no_colon)
next
  case True
  then obtain keyID secret
    where k: "adminKey = keyID @ CHR '':'' # secret" and a: "CHR '':'' \<notin> set keyID"
    using split_list_first [of "CHR '':''" adminKey] by blast
  show ?thesis
    using issued_inject
    by (auto simp: k GenerateToken_split [OF a] split: sum.splits)
qed

theorem GenerateToken_same_second_witness:
  "Unix (Instant 1700000000000000000) = Unix (Instant 1700000000999999999) \<and>
   GenerateToken ''abc123:deadbeef'' (Instant 1700000000000000000) =
     GenerateToken ''abc123:deadbeef'' (Instant 1700000000999999999) \<and>
   \<not> isl (GenerateToken ''abc123:deadbeef'' (Instant 1700000000000000000))"
proof -
  have u: "Unix (Instant 1700000000000000000) = Unix (Instant 1700000000999999999)"
    by (simp add: Unix_def Second_def)
  have "GenerateToken ''abc123:deadbeef'' (Instant 1700000000000000000) =
        GenerateToken ''abc123:deadbeef'' (Instant 1700000000999999999)"
    using GenerateToken_same_second
      [of "Instant 1700000000000000000" "Instant 1700000000999999999" "''abc123:deadbeef''"] u
    by blast
  then show ?thesis
    using u by (simp add: GenerateToken_example)
qed

text \<open>
  C3, as the specification has it, fails: the admin key is the only argument, and two
  calls with the same admin key, made one second apart, return different tokens.
\<close>

theorem GenerateToken_clock_counterexample:
  "GenerateToken ''abc123:deadbeef'' (Instant 1700000000000000000) \<noteq>
   GenerateToken ''abc123:deadbeef'' (Instant 1700000001000000000)"
proof
  assume "GenerateToken ''abc123:deadbeef'' (Instant 1700000000000000000) =
          GenerateToken ''abc123:deadbeef'' (Instant 1700000001000000000)"
  then have "issued ''abc123'' [0xde, 0xad, 0xbe, 0xef] (Unix (Instant 1700000000000000000)) =
             issued ''abc123'' [0xde, 0xad, 0xbe, 0xef] (Unix (Instant 1700000001000000000))"
    by (simp add: GenerateToken_example)
  then have "Unix (Instant 1700000000000000000) = Unix (Instant 1700000001000000000)"
    by (rule issued_inject)
  then show False by (simp add: Unix_def Second_def)
qed

text \<open>
  C7. For a well-formed admin key, an identifier without a colon, a colon and a secret
  in hex, the token has the claims \<^verbatim>\<open>iat\<close>, the second the clock shows, \<^verbatim>\<open>exp\<close>,
  300 seconds later, and \<^verbatim>\<open>aud\<close>, \<^verbatim>\<open>/admin/\<close>, and no other; its header has
  \<^verbatim>\<open>alg\<close>, \<^verbatim>\<open>HS256\<close>, \<^verbatim>\<open>kid\<close>, the identifier, and \<^verbatim>\<open>typ\<close>; and its signature is
  the HMAC-SHA256, under the decoded bytes of the secret, of the signing string made
  of this header and these claims.
\<close>

theorem GenerateToken_shape:
  assumes "CHR '':'' \<notin> set keyID" and "hexDecode secret = Inr secretBytes"
  shows "\<exists>header claims.
           GenerateToken (keyID @ '':'' @ secret) now =
             Inr (JWT (SigningString header claims)
                      (HMAC_SHA256 secretBytes (SigningString header claims))) \<and>
           claims ''iat'' = Some (JInt (Unix now)) \<and>
           claims ''exp'' = Some (JInt (Unix now + 300)) \<and>
           claims ''aud'' = Some (JString ''/admin/'') \<and>
           dom claims = {''iat'', ''exp'', ''aud''} \<and>
           header ''alg'' = Some (JString ''HS256'') \<and>
           header ''kid'' = Some (JString keyID) \<and>
           header ''typ'' = Some (JString ''JWT'') \<and>
           dom header = {''alg'', ''kid'', ''typ''}"
proof (intro exI conjI)
  show "GenerateToken (keyID @ '':'' @ secret) now =
          Inr (JWT (SigningString (issued_header keyID) (issued_claims (Unix now)))
                   (HMAC_SHA256 secretBytes
                      (SigningString (issued_header keyID) (issued_claims (Unix now)))))"
    using GenerateToken_split [OF assms(1), of secret now] assms(2)
    by (simp add: issued_def)
qed (auto simp: issued_header_def issued_claims_def)

theorem GenerateToken_shape_witness:
  "CHR '':'' \<notin> set ''abc123'' \<and>
   hexDecode ''deadbeef'' = Inr [0xde, 0xad, 0xbe, 0xef] \<and>
   (\<exists>header claims.
      GenerateToken ''abc123:deadbeef'' (Instant 1700000000123456789) =
        Inr (JWT (SigningString header claims)
                 (HMAC_SHA256 [0xde, 0xad, 0xbe, 0xef] (SigningString header claims))) \<and>
      claims ''iat'' = Some (JInt 1700000000) \<and>
      claims ''exp'' = Some (JInt 1700000300) \<and>
      claims ''aud'' = Some (JString ''/admin/'') \<and>
      dom claims = {''iat'', ''exp'', ''aud''} \<and>
      header ''alg'' = Some (JString ''HS256'') \<and>
      header ''kid'' = Some (JString ''abc123'') \<and>
      header ''typ'' = Some (JString ''JWT'') \<and>
      dom header = {''alg'', ''kid'', ''typ''})"
proof -
  have c: "CHR '':'' \<notin> set ''abc123''" by simp
  have u: "Unix (Instant 1700000000123456789) = 1700000000"
    by (simp add: Unix_def Second_def)
  show ?thesis
    using GenerateToken_shape [OF c hexDecode_deadbeef, of "Instant 1700000000123456789"]
    by (simp add: u hexDecode_deadbeef)
qed

text \<open>
  C8. A key without a colon is refused as badly formed, and only such a key is. A key
  is split at its first colon and nowhere else: whatever follows the first colon is
  the secret, and when the secret does not decode, because its length is odd or one of
  its characters is not a hex digit, the key is refused with the error of the decoding.
\<close>

theorem GenerateToken_errors:
  "(GenerateToken adminKey now = Inl InvalidKeyFormat \<longleftrightarrow> CHR '':'' \<notin> set adminKey) \<and>
   (CHR '':'' \<notin> set keyID \<and> hexDecode secret = Inl e \<longrightarrow>
      GenerateToken (keyID @ '':'' @ secret) now = Inl (DecodingSecret e)) \<and>
   (CHR '':'' \<notin> set keyID \<and> (odd (length secret) \<or> (\<exists>c\<in>set secret. \<not> is_hex c)) \<longrightarrow>
      (\<exists>e. GenerateToken (keyID @ '':'' @ secret) now = Inl (DecodingSecret e)))"
proof (intro conjI impI)
  show "GenerateToken adminKey now = Inl InvalidKeyFormat \<longleftrightarrow> CHR '':'' \<notin> set adminKey"
    using GenerateToken_no_colon [of adminKey now] GenerateToken_with_colon [of adminKey now]
    by blast
next
  assume "CHR '':'' \<notin> set keyID \<and> hexDecode secret = Inl e"
  then show "GenerateToken (keyID @ '':'' @ secret) now = Inl (DecodingSecret e)"
    using GenerateToken_split [of keyID secret now] by simp
next
  assume h: "CHR '':'' \<notin> set keyID \<and> (odd (length secret) \<or> (\<exists>c\<in>set secret. \<not> is_hex c))"
  have "isl (hexDecode secret) \<longleftrightarrow> odd (length secret) \<or> (\<exists>c\<in>set secret. \<not> is_hex c)"
    using hexDecode_loop_fails [of secret "[]"]
    by (auto simp: hexDecode_def odd_iff_mod_2_eq_one)
  with h obtain e where "hexDecode secret = Inl e"
    by (cases "hexDecode secret") auto
  with h show "\<exists>e. GenerateToken (keyID @ '':'' @ secret) now = Inl (DecodingSecret e)"
    using GenerateToken_split [of keyID secret now] by simp
qed

theorem GenerateToken_errors_witness:
  "CHR '':'' \<notin> set ''noColonHere'' \<and>
   GenerateToken ''noColonHere'' (Instant 0) = Inl InvalidKeyFormat \<and>
   CHR '':'' \<notin> set ''id'' \<and>
   hexDecode ''zz'' = Inl (InvalidHexCharacter CHR ''z'') \<and>
   GenerateToken ''id:zz'' (Instant 0) = Inl (DecodingSecret (InvalidHexCharacter CHR ''z'')) \<and>
   odd (length ''abc'') \<and>
   (\<exists>e. GenerateToken ''id:abc'' (Instant 0) = Inl (DecodingSecret e)) \<and>
   hexDecode ''00:ff'' = Inl OddLength \<and>
   GenerateToken ''id:00:ff'' (Instant 0) = Inl (DecodingSecret OddLength)"
proof -
  have z: "hexDecode ''zz'' = Inl (InvalidHexCharacter CHR ''z'')"
    by (simp add: hexDecode_def nibble_def byte_of_def)
  have o: "hexDecode ''00:ff'' = Inl OddLength"
    by (simp add: hexDecode_def)
  show ?thesis
    using GenerateToken_errors [of "''noColonHere''" "Instant 0" "''id''" "''zz''"
            "InvalidHexCharacter CHR ''z''"]
          GenerateToken_errors [of "''noColonHere''" "Instant 0" "''id''" "''abc''" "OddLength"]
          GenerateToken_errors [of "''noColonHere''" "Instant 0" "''id''" "''00:ff''" "OddLength"]
    by (simp add: z o)
qed

text \<open>
  C10. A key whose secret is empty, a key identifier without a colon followed by a
  colon and nothing more, such as \<^verbatim>\<open>id:\<close>, is accepted: the empty string decodes
  to no bytes, and the token issued for the identifier is signed under the empty key.
\<close>

theorem GenerateToken_empty_secret:
  assumes "CHR '':'' \<notin> set keyID"
  shows "hexDecode [] = Inr [] \<and>
         (\<exists>header claims.
            GenerateToken (keyID @ '':'') now =
              Inr (JWT (SigningString header claims)
                       (HMAC_SHA256 [] (SigningString header claims))) \<and>
            header ''kid'' = Some (JString keyID) \<and>
            header ''alg'' = Some (JString ''HS256'') \<and>
            claims ''iat'' = Some (JInt (Unix now)) \<and>
            claims ''exp'' = Some (JInt (Unix now + 300)) \<and>
            claims ''aud'' = Some (JString ''/admin/''))"
proof (intro conjI exI)
  show "GenerateToken (keyID @ '':'') now =
          Inr (JWT (SigningString (issued_header keyID) (issued_claims (Unix now)))
                   (HMAC_SHA256 []
                      (SigningString (issued_header keyID) (issued_claims (Unix now)))))"
    using GenerateToken_split [OF assms, of "[]" now]
    by (simp add: hexDecode_empty issued_def)
qed (simp_all add: hexDecode_empty issued_header_def issued_claims_def)

theorem GenerateToken_empty_secret_witness:
  "CHR '':'' \<notin> set ''id'' \<and>
   hexDecode [] = Inr [] \<and>
   (\<exists>header claims.
      GenerateToken ''id:'' (Instant 1700000000123456789) =
        Inr (JWT (SigningString header claims)
                 (HMAC_SHA256 [] (SigningString header claims))) \<and>
      header ''kid'' = Some (JString ''id'') \<and>
      header ''alg'' = Some (JString ''HS256'') \<and>
      claims ''iat'' = Some (JInt 1700000000) \<and>
      claims ''exp'' = Some (JInt 1700000300) \<and>
      claims ''aud'' = Some (JString ''/admin/'')) \<and>
   CHR '':'' \<notin> set ''abc123'' \<and>
   (\<exists>header claims.
      GenerateToken ''abc123:'' (Instant 0) =
        Inr (JWT (SigningString header claims)
                 (HMAC_SHA256 [] (SigningString header claims))) \<and>
      header ''kid'' = Some (JString ''abc123'') \<and>
      claims ''iat'' = Some (JInt 0) \<and>
      claims ''exp'' = Some (JInt 300)) \<and>
   (\<exists>header claims.
      GenerateToken '':'' (Instant 0) =
        Inr (JWT (SigningString header claims)
                 (HMAC_SHA256 [] (SigningString header claims))) \<and>
      header ''kid'' = Some (JString []))"
proof -
  have c1: "CHR '':'' \<notin> set ''id''" and c2: "CHR '':'' \<notin> set ''abc123''"
    and c3: "CHR '':'' \<notin> set []"
    by simp_all
  have u1: "Unix (Instant 1700000000123456789) = 1700000000" and u0: "Unix (Instant 0) = 0"
    by (simp_all add: Unix_def Second_def)
  from GenerateToken_empty_secret [OF c1, of "Instant 1700000000123456789"]
  have 1: "\<exists>header claims.
      GenerateToken ''id:'' (Instant 1700000000123456789) =
        Inr (JWT (SigningString header claims)
                 (HMAC_SHA256 [] (SigningString header claims))) \<and>
      header ''kid'' = Some (JString ''id'') \<and>
      header ''alg'' = Some (JString ''HS256'') \<and>
      claims ''iat'' = Some (JInt 1700000000) \<and>
      claims ''exp'' = Some (JInt 1700000300) \<and>
      claims ''aud'' = Some (JString ''/admin/'')"
    by (simp add: u1)
  from GenerateToken_empty_secret [OF c2, of "Instant 0"]
  have 2: "\<exists>header claims.
      GenerateToken ''abc123:'' (Instant 0) =
        Inr (JWT (SigningString header claims)
                 (HMAC_SHA256 [] (SigningString header claims))) \<and>
      header ''kid'' = Some (JString ''abc123'') \<and>
      claims ''iat'' = Some (JInt 0) \<and>
      claims ''exp'' = Some (JInt 300)"
    by (simp add: u0) blast
  from GenerateToken_empty_secret [OF c3, of "Instant 0"]
  have 3: "\<exists>header claims.
      GenerateToken '':'' (Instant 0) =
        Inr (JWT (SigningString header claims)
                 (HMAC_SHA256 [] (SigningString header claims))) \<and>
      header ''kid'' = Some (JString [])"
    by simp blast
  from 1 2 3 show ?thesis
    by (simp add: hexDecode_empty)
qed

section \<open>Properties of the request pipeline\<close>

lemma doRequest_build_example:
  "\<exists>req. doRequest_build (env_answering status body) example_client method path None = Inr req"
  by (simp add: doRequest_build_def env_answering_def example_client_def NewRequest_def
      GenerateToken_example)

lemma UploadImage_build_example:
  "\<exists>req. UploadImage_build (env_answering status body) example_client filePath ref = Inr req"
  by (simp add: UploadImage_build_def env_answering_def example_client_def NewRequest_def
      GenerateToken_example Let_def)

lemma env_answering_simps:
  "http_Do (env_answering status body) req = Inr \<lparr>StatusCode = status, Body = Inr body\<rparr>"
  "unmarshal_APIError (env_answering status body) = unmarshal_APIError_examples"
  "unmarshal_UploadResult (env_answering status body) = unmarshal_UploadResult_examples"
  by (simp_all add: env_answering_def)

text \<open>
  C5. Once a response has come back and its body has been read: a status below 400
  returns the bytes of the body as they are; a status of 400 or more whose body decodes
  to an \<^verbatim>\<open>APIError\<close> with at least one item fails with that decoded error; any other
  response of status 400 or more fails with the error that carries the text of the
  body and the status code.
\<close>

theorem doRequest_classification:
  assumes "doRequest_build env c method path body = Inr req"
    and "http_Do env req = Inr resp"
    and "Body resp = Inr respBody"
  shows "(StatusCode resp < 400 \<longrightarrow> doRequest env c method path body = Inr respBody) \<and>
         (StatusCode resp \<ge> 400 \<and> unmarshal_APIError env respBody = Inr apiErr \<and>
            Errors apiErr \<noteq> [] \<longrightarrow>
            doRequest env c method path body = Inl (ErrAPI apiErr)) \<and>
         (StatusCode resp \<ge> 400 \<and>
            \<not> (\<exists>e. unmarshal_APIError env respBody = Inr e \<and> Errors e \<noteq> []) \<longrightarrow>
            doRequest env c method path body = Inl (ErrStatus respBody (StatusCode resp)))"
  using assms by (auto simp: doRequest_def split: sum.splits)

theorem doRequest_classification_witness:
  \<open>(\<exists>req. doRequest_build (env_answering 200 ''{"posts":[]}'') example_client ''GET'' ''/posts/'' None
            = Inr req \<and>
          http_Do (env_answering 200 ''{"posts":[]}'') req
            = Inr \<lparr>StatusCode = 200, Body = Inr ''{"posts":[]}''\<rparr>) \<and>
   doRequest (env_answering 200 ''{"posts":[]}'') example_client ''GET'' ''/posts/'' None
     = Inr ''{"posts":[]}'' \<and>
   unmarshal_APIError_examples ''{"errors":[{"message":"Not found"}]}''
     = Inr \<lparr>Errors = [\<lparr>Message = ''Not found'', Context = [], Type = []\<rparr>]\<rparr> \<and>
   doRequest (env_answering 404 ''{"errors":[{"message":"Not found"}]}'') example_client
       ''GET'' ''/posts/1/'' None
     = Inl (ErrAPI \<lparr>Errors = [\<lparr>Message = ''Not found'', Context = [], Type = []\<rparr>]\<rparr>) \<and>
   isl (unmarshal_APIError_examples ''Internal Server Error'') \<and>
   doRequest (env_answering 500 ''Internal Server Error'') example_client ''GET'' ''/posts/'' None
     = Inl (ErrStatus ''Internal Server Error'' 500) \<and>
   unmarshal_APIError_examples ''{"errors":[]}'' = Inr \<lparr>Errors = []\<rparr> \<and>
   doRequest (env_answering 400 ''{"errors":[]}'') example_client ''GET'' ''/posts/'' None
     = Inl (ErrStatus ''{"errors":[]}'' 400)\<close>
proof -
  let ?ok = \<open>''{"posts":[]}''\<close>
  let ?nf = \<open>''{"errors":[{"message":"Not found"}]}''\<close>
  let ?e = "\<lparr>Errors = [\<lparr>Message = ''Not found'', Context = [], Type = []\<rparr>]\<rparr>"
  obtain r1 where r1: "doRequest_build (env_answering 200 ?ok) example_client ''GET'' ''/posts/'' None = Inr r1"
    using doRequest_build_example by blast
  obtain r2 where r2: "doRequest_build (env_answering 404 ?nf) example_client ''GET'' ''/posts/1/'' None = Inr r2"
    using doRequest_build_example by blast
  obtain r3 where r3: "doRequest_build (env_answering 500 ''Internal Server Error'') example_client ''GET'' ''/posts/'' None = Inr r3"
    using doRequest_build_example by blast
  obtain r4 where r4: \<open>doRequest_build (env_answering 400 ''{"errors":[]}'') example_client ''GET'' ''/posts/'' None = Inr r4\<close>
    using doRequest_build_example by blast
  have d: "\<And>status body req. http_Do (env_answering status body) req = Inr \<lparr>StatusCode = status, Body = Inr body\<rparr>"
    by (simp add: env_answering_simps)
  have b: "\<And>status body. Body \<lparr>StatusCode = status, Body = Inr body\<rparr> = Inr body"
    by simp
  have u: "unmarshal_APIError_examples ?nf = Inr ?e"
    by (simp add: unmarshal_APIError_examples_def)
  have v: "isl (unmarshal_APIError_examples ''Internal Server Error'')"
    by (simp add: unmarshal_APIError_examples_def)
  have w: \<open>unmarshal_APIError_examples ''{"errors":[]}'' = Inr \<lparr>Errors = []\<rparr>\<close>
    by (simp add: unmarshal_APIError_examples_def)
  from doRequest_classification [OF r1 d b, of ?e]
  have 1: "doRequest (env_answering 200 ?ok) example_client ''GET'' ''/posts/'' None = Inr ?ok"
    by simp
  from doRequest_classification [OF r2 d b, of ?e] u
  have 2: "doRequest (env_answering 404 ?nf) example_client ''GET'' ''/posts/1/'' None = Inl (ErrAPI ?e)"
    by (simp add: env_answering_simps)
  from doRequest_classification [OF r3 d b, of ?e] v
  have 3: "doRequest (env_answering 500 ''Internal Server Error'') example_client ''GET'' ''/posts/'' None
             = Inl (ErrStatus ''Internal Server Error'' 500)"
    by (auto simp add: env_answering_simps)
  from doRequest_classification [OF r4 d b, of ?e] w
  have 4: \<open>doRequest (env_answering 400 ''{"errors":[]}'') example_client ''GET'' ''/posts/'' None
             = Inl (ErrStatus ''{"errors":[]}'' 400)\<close>
    by (simp add: env_answering_simps)
  from r1 d have 0: "\<exists>req. doRequest_build (env_answering 200 ?ok) example_client ''GET'' ''/posts/'' None = Inr req \<and>
          http_Do (env_answering 200 ?ok) req = Inr \<lparr>StatusCode = 200, Body = Inr ?ok\<rparr>"
    by blast
  from 0 1 2 3 4 u v w show ?thesis by blast
qed

lemma unmarshal_UploadResult_examples_simps:
  \<open>unmarshal_UploadResult_examples ''{"images":[{"url":"https://example.com/a.png","ref":"a"}]}''
     = Inr \<lparr>Images = [\<lparr>URL = ''https://example.com/a.png'', Ref = ''a''\<rparr>]\<rparr>\<close>
  \<open>unmarshal_UploadResult_examples ''{"images":[{"url":""}]}'' = Inr \<lparr>Images = [\<lparr>URL = [], Ref = []\<rparr>]\<rparr>\<close>
  \<open>unmarshal_UploadResult_examples ''{}'' = Inr \<lparr>Images = []\<rparr>\<close>
  \<open>unmarshal_UploadResult_examples ''{"images":[]}'' = Inr \<lparr>Images = []\<rparr>\<close>
  \<open>unmarshal_UploadResult_examples ''OK'' = Inl ''invalid character looking for beginning of value''\<close>
  by (simp_all add: unmarshal_UploadResult_examples_def)

text \<open>
  C4, as the code has it. A response of status below 400 is decoded. When the decoding
  fails, the call fails with the error of the decoding; when no image is decoded, as
  for a body without the \<^verbatim>\<open>images\<close> field or with an empty list, it fails with
  \<^verbatim>\<open>no image URL in response\<close>; otherwise it returns the URL of the first image, as
  it is, empty or not.
\<close>

theorem UploadImage_response:
  assumes "UploadImage_build env c filePath ref = Inr req"
    and "http_Do env req = Inr resp"
    and "Body resp = Inr respBody"
    and "StatusCode resp < 400"
  shows "(unmarshal_UploadResult env respBody = Inl err \<longrightarrow>
            UploadImage env c filePath ref = Inl (ParsingResponse err)) \<and>
         (unmarshal_UploadResult env respBody = Inr result \<and> Images result = [] \<longrightarrow>
            UploadImage env c filePath ref = Inl NoImageURL) \<and>
         (unmarshal_UploadResult env respBody = Inr result \<and> Images result = img # imgs \<longrightarrow>
            UploadImage env c filePath ref = Inr (URL img))"
  using assms by (auto simp: UploadImage_def split: sum.splits)

theorem UploadImage_response_witness:
  \<open>(\<exists>req. UploadImage_build (env_answering 201 ''{}'') example_client ''/tmp/pic.gif'' ''a'' = Inr req \<and>
          http_Do (env_answering 201 ''{}'') req = Inr \<lparr>StatusCode = 201, Body = Inr ''{}''\<rparr>) \<and>
   unmarshal_UploadResult_examples ''{}'' = Inr \<lparr>Images = []\<rparr> \<and>
   UploadImage (env_answering 201 ''{}'') example_client ''/tmp/pic.gif'' ''a'' = Inl NoImageURL \<and>
   UploadImage (env_answering 201 ''{"images":[]}'') example_client ''/tmp/pic.gif'' ''a'' = Inl NoImageURL \<and>
   UploadImage (env_answering 201 ''{"images":[{"url":"https://example.com/a.png","ref":"a"}]}'')
       example_client ''/tmp/pic.gif'' ''a''
     = Inr ''https://example.com/a.png'' \<and>
   UploadImage (env_answering 200 ''OK'') example_client ''/tmp/pic.gif'' ''a''
     = Inl (ParsingResponse ''invalid character looking for beginning of value'')\<close>
proof -
  have d: "\<And>status body req. http_Do (env_answering status body) req = Inr \<lparr>StatusCode = status, Body = Inr body\<rparr>"
    by (simp add: env_answering_simps)
  have b: "\<And>status body. Body \<lparr>StatusCode = status, Body = Inr body\<rparr> = Inr body"
    by simp
  have s1: "StatusCode \<lparr>StatusCode = 201, Body = Inr body\<rparr> < 400" for body :: string
    by simp
  have s0: "StatusCode \<lparr>StatusCode = 200, Body = Inr body\<rparr> < 400" for body :: string
    by simp
  obtain r1 where r1: \<open>UploadImage_build (env_answering 201 ''{}'') example_client ''/tmp/pic.gif'' ''a'' = Inr r1\<close>
    using UploadImage_build_example by blast
  obtain r2 where r2: \<open>UploadImage_build (env_answering 201 ''{"images":[]}'') example_client ''/tmp/pic.gif'' ''a'' = Inr r2\<close>
    using UploadImage_build_example by blast
  obtain r3 where r3: \<open>UploadImage_build (env_answering 201 ''{"images":[{"url":"https://example.com/a.png","ref":"a"}]}'') example_client ''/tmp/pic.gif'' ''a'' = Inr r3\<close>
    using UploadImage_build_example by blast
  obtain r4 where r4: \<open>UploadImage_build (env_answering 200 ''OK'') example_client ''/tmp/pic.gif'' ''a'' = Inr r4\<close>
    using UploadImage_build_example by blast
  from UploadImage_response [OF r1 d b s1, of "''x''" "\<lparr>Images = []\<rparr>"]
  have 1: \<open>UploadImage (env_answering 201 ''{}'') example_client ''/tmp/pic.gif'' ''a'' = Inl NoImageURL\<close>
    by (simp add: env_answering_simps unmarshal_UploadResult_examples_simps)
  from UploadImage_response [OF r2 d b s1, of "''x''" "\<lparr>Images = []\<rparr>"]
  have 2: \<open>UploadImage (env_answering 201 ''{"images":[]}'') example_client ''/tmp/pic.gif'' ''a'' = Inl NoImageURL\<close>
    by (simp add: env_answering_simps unmarshal_UploadResult_examples_simps)
  from UploadImage_response [OF r3 d b s1, of "''x''"
         "\<lparr>Images = [\<lparr>URL = ''https://example.com/a.png'', Ref = ''a''\<rparr>]\<rparr>"
         "\<lparr>URL = ''https://example.com/a.png'', Ref = ''a''\<rparr>" "[]"]
  have 3: \<open>UploadImage (env_answering 201 ''{"images":[{"url":"https://example.com/a.png","ref":"a"}]}'')
              example_client ''/tmp/pic.gif'' ''a'' = Inr ''https://example.com/a.png''\<close>
    by (simp add: env_answering_simps unmarshal_UploadResult_examples_simps)
  from UploadImage_response [OF r4 d b s0, of "''invalid character looking for beginning of value''"]
  have 4: \<open>UploadImage (env_answering 200 ''OK'') example_client ''/tmp/pic.gif'' ''a''
             = Inl (ParsingResponse ''invalid character looking for beginning of value'')\<close>
    by (simp add: env_answering_simps unmarshal_UploadResult_examples_simps)
  from r1 d have 0: \<open>\<exists>req. UploadImage_build (env_answering 201 ''{}'') example_client ''/tmp/pic.gif'' ''a'' = Inr req \<and>
          http_Do (env_answering 201 ''{}'') req = Inr \<lparr>StatusCode = 201, Body = Inr ''{}''\<rparr>\<close>
    by blast
  from 0 1 2 3 4 show ?thesis
    by (simp add: unmarshal_UploadResult_examples_simps)
qed

text \<open>
  C4, as the specification has it, fails where the decoded URL is empty: for the
  response \<^verbatim>\<open>{"images":[{"url":""}]}\<close> of status 200 the call does not fail, it
  returns the empty URL.
\<close>

theorem UploadImage_empty_url_counterexample:
  \<open>UploadImage (env_answering 200 ''{"images":[{"url":""}]}'') example_client ''/tmp/pic.gif'' []
     = Inr []\<close>
proof -
  obtain req where \<open>UploadImage_build (env_answering 200 ''{"images":[{"url":""}]}'') example_client
      ''/tmp/pic.gif'' [] = Inr req\<close>
    using UploadImage_build_example by blast
  then show ?thesis
    by (simp add: UploadImage_def env_answering_simps unmarshal_UploadResult_examples_simps)
qed

section \<open>Properties of the walk over the pages\<close>

text \<open>One round of the loop, for any server.\<close>

lemma posts_loop_round:
  assumes "client_Get client ''/posts/'' [(''limit'', ''100''), (''page'', Sprintf_d page)] s
             = (Inr data, s')"
    and "unmarshal data = Inr resp"
  shows "posts_loop client_Get unmarshal client page allPosts s =
           (if Next resp = 0 then Some (Inr (allPosts @ Posts resp), s')
            else posts_loop client_Get unmarshal client (Next resp) (allPosts @ Posts resp) s')"
  using assms by (subst posts_loop.simps) (simp add: Let_def)

lemma stub_Get_pending:
  "stub_Get client path params \<lparr>pending = r # rs, calls = log\<rparr> =
     (Inr r, \<lparr>pending = rs, calls = log @ [(path, params)]\<rparr>)"
  by (simp add: stub_Get_def)

text \<open>
  The walk against the scripted server, from any cursor and any accumulator: the
  responses before the first one that reports no next page are consumed in order.
\<close>

lemma posts_loop_scripted:
  assumes "list_all2 (\<lambda>r p. unmarshal r = Inr p) rs front"
    and "\<forall>p\<in>set front. Next p \<noteq> 0"
    and "unmarshal r = Inr lastp"
    and "Next lastp = 0"
  shows "posts_loop stub_Get unmarshal client page allPosts \<lparr>pending = rs @ r # rest, calls = log\<rparr> =
           Some (Inr (allPosts @ concat (map Posts front) @ Posts lastp),
                 \<lparr>pending = rest, calls = log @ map page_request (page # map Next front)\<rparr>)"
  using assms(1,2)
proof (induction rs front arbitrary: page allPosts log rule: list_all2_induct)
  case Nil
  have "stub_Get client ''/posts/'' [(''limit'', ''100''), (''page'', Sprintf_d page)]
          \<lparr>pending = r # rest, calls = log\<rparr>
        = (Inr r, \<lparr>pending = rest, calls = log @ [page_request page]\<rparr>)"
    by (simp add: stub_Get_pending page_request_def)
  from posts_loop_round
         [of stub_Get client page "\<lparr>pending = r # rest, calls = log\<rparr>" r
             "\<lparr>pending = rest, calls = log @ [page_request page]\<rparr>" unmarshal lastp allPosts,
          OF this assms(3)] assms(4)
  show ?case by simp
next
  case (Cons x xs p ps)
  have "stub_Get client ''/posts/'' [(''limit'', ''100''), (''page'', Sprintf_d page)]
          \<lparr>pending = x # xs @ r # rest, calls = log\<rparr>
        = (Inr x, \<lparr>pending = xs @ r # rest, calls = log @ [page_request page]\<rparr>)"
    by (simp add: stub_Get_pending page_request_def)
  from posts_loop_round
         [of stub_Get client page "\<lparr>pending = x # xs @ r # rest, calls = log\<rparr>" x
             "\<lparr>pending = xs @ r # rest, calls = log @ [page_request page]\<rparr>" unmarshal p allPosts,
          OF this Cons.hyps(1)] Cons.prems
  have "posts_loop stub_Get unmarshal client page allPosts \<lparr>pending = (x # xs) @ r # rest, calls = log\<rparr>
        = posts_loop stub_Get unmarshal client (Next p) (allPosts @ Posts p)
            \<lparr>pending = xs @ r # rest, calls = log @ [page_request page]\<rparr>"
    by simp
  also have "\<dots> = Some (Inr ((allPosts @ Posts p) @ concat (map Posts ps) @ Posts lastp),
                 \<lparr>pending = rest,
                  calls = (log @ [page_request page]) @ map page_request (Next p # map Next ps)\<rparr>)"
    using Cons.prems by (intro Cons.IH) simp
  finally show ?case by simp
qed

lemma Sprintf_d_examples: "Sprintf_d 1 = ''1''" "Sprintf_d 2 = ''2''"
  by (simp_all add: Sprintf_d_def)

text \<open>
  C6. With \<^verbatim>\<open>--all\<close> the walk starts at cursor 1 with nothing collected. Every
  request is for \<^verbatim>\<open>/posts/\<close> with \<^verbatim>\<open>limit=100\<close> and \<^verbatim>\<open>page=\<close> the cursor. A page
  that decodes adds its posts at the end of those collected; if it reports the next
  cursor 0 the walk ends with the posts collected, otherwise it goes on at the cursor
  reported. Against a server that answers with pages of which the last is the first to
  report 0, the walk returns the posts of the pages in order, makes one call for each
  page, at the cursors 1 and those the pages before the last reported, and leaves
  the responses after the last page unasked.
\<close>

theorem runPostsList_walk:
  assumes "postsAll fl"
    and "list_all2 (\<lambda>r p. unmarshal r = Inr p) rs front"
    and "\<forall>p\<in>set front. Next p \<noteq> 0"
    and "unmarshal r = Inr lastp"
    and "Next lastp = 0"
  shows "runPostsList (Inr cfg) fl stub_Get unmarshal \<lparr>pending = rs @ r # rest, calls = []\<rparr> =
           Some (Inr (concat (map Posts (front @ [lastp]))),
                 \<lparr>pending = rest, calls = map page_request (1 # map Next front)\<rparr>) \<and>
         runPostsList (Inr cfg) fl client_Get unmarshal s =
           posts_loop client_Get unmarshal (NewClient cfg) 1 [] s \<and>
         (client_Get client ''/posts/'' [(''limit'', ''100''), (''page'', Sprintf_d page)] s
            = (Inr data, s') \<and> unmarshal data = Inr resp \<longrightarrow>
          posts_loop client_Get unmarshal client page allPosts s =
            (if Next resp = 0 then Some (Inr (allPosts @ Posts resp), s')
             else posts_loop client_Get unmarshal client (Next resp) (allPosts @ Posts resp) s'))"
proof (intro conjI impI)
  show "runPostsList (Inr cfg) fl client_Get unmarshal s =
          posts_loop client_Get unmarshal (NewClient cfg) 1 [] s"
    using assms(1) by (simp add: runPostsList_def)
  show "runPostsList (Inr cfg) fl stub_Get unmarshal \<lparr>pending = rs @ r # rest, calls = []\<rparr> =
          Some (Inr (concat (map Posts (front @ [lastp]))),
                \<lparr>pending = rest, calls = map page_request (1 # map Next front)\<rparr>)"
    using assms(1) posts_loop_scripted [OF assms(2-5), of "NewClient cfg" 1 "[]" rest "[]"]
    by (simp add: runPostsList_def)
next
  assume h: "client_Get client ''/posts/'' [(''limit'', ''100''), (''page'', Sprintf_d page)] s
            = (Inr data, s') \<and> unmarshal data = Inr resp"
  show "posts_loop client_Get unmarshal client page allPosts s =
            (if Next resp = 0 then Some (Inr (allPosts @ Posts resp), s')
             else posts_loop client_Get unmarshal client (Next resp) (allPosts @ Posts resp) s')"
    by (rule posts_loop_round [of client_Get client page s data s' unmarshal resp allPosts,
          OF conjunct1 [OF h] conjunct2 [OF h]])
qed

theorem runPostsList_walk_witness:
  \<open>unmarshal_posts_examples ''{"posts":[1,2],"meta":{"pagination":{"next":2}}}''
     = Inr \<lparr>Posts = [1, 2], Next = 2\<rparr> \<and>
   unmarshal_posts_examples ''{"posts":[3],"meta":{"pagination":{"next":0}}}''
     = Inr \<lparr>Posts = [3], Next = 0\<rparr> \<and>
   runPostsList (Inr \<lparr>cfg_URL = ''https://blog.example.com/'', cfg_Key = ''abc123:deadbeef''\<rparr>)
     \<lparr>postsLimit = 15, postsPage = 1, postsAll = True\<rparr> stub_Get unmarshal_posts_examples
     \<lparr>pending = [''{"posts":[1,2],"meta":{"pagination":{"next":2}}}'',
                 ''{"posts":[3],"meta":{"pagination":{"next":0}}}''],
      calls = []\<rparr>
   = Some (Inr [1, 2, 3],
           \<lparr>pending = [],
            calls = [(''/posts/'', [(''limit'', ''100''), (''page'', ''1'')]),
                     (''/posts/'', [(''limit'', ''100''), (''page'', ''2'')])]\<rparr>)\<close>
proof -
  let ?r1 = \<open>''{"posts":[1,2],"meta":{"pagination":{"next":2}}}''\<close>
  let ?r2 = \<open>''{"posts":[3],"meta":{"pagination":{"next":0}}}''\<close>
  let ?p1 = "\<lparr>Posts = [1, 2 :: nat], Next = 2\<rparr>"
  let ?p2 = "\<lparr>Posts = [3 :: nat], Next = 0\<rparr>"
  have u1: "unmarshal_posts_examples ?r1 = Inr ?p1"
    by (simp add: unmarshal_posts_examples_def)
  have u2: "unmarshal_posts_examples ?r2 = Inr ?p2"
    by (simp add: unmarshal_posts_examples_def)
  have a: "postsAll \<lparr>postsLimit = 15, postsPage = 1, postsAll = True\<rparr>" by simp
  have l: "list_all2 (\<lambda>r p. unmarshal_posts_examples r = Inr p) [?r1] [?p1]"
    using u1 by simp
  have n: "\<forall>p\<in>set [?p1]. Next p \<noteq> 0" by simp
  have z: "Next ?p2 = 0" by simp
  from runPostsList_walk [OF a l n u2 z,
      of "\<lparr>cfg_URL = ''https://blog.example.com/'', cfg_Key = ''abc123:deadbeef''\<rparr>" "[]",
      THEN conjunct1]
  have "runPostsList (Inr \<lparr>cfg_URL = ''https://blog.example.com/'', cfg_Key = ''abc123:deadbeef''\<rparr>)
          \<lparr>postsLimit = 15, postsPage = 1, postsAll = True\<rparr> stub_Get unmarshal_posts_examples
          \<lparr>pending = [?r1, ?r2], calls = []\<rparr>
        = Some (Inr [1, 2, 3], \<lparr>pending = [], calls = [page_request 1, page_request 2]\<rparr>)"
    by simp
  then show ?thesis
    using u1 u2 by (simp add: page_request_def Sprintf_d_examples)
qed

section \<open>Properties of Parse\<close>

lemma markdown_loop_concat:
  "markdown_loop rest buf = buf @ concat (map (\<lambda>line. line @ ''\<newline>'') rest)"
  by (induction rest arbitrary: buf) simp_all

lemma frontmatter_loop_unterminated:
  "\<forall>line\<in>set rest. TrimSpace line \<noteq> ''---'' \<Longrightarrow>
   frontmatter_loop rest buf = (buf @ concat (map (\<lambda>line. line @ ''\<newline>'') rest), [])"
  by (induction rest arbitrary: buf) simp_all

text \<open>
  What \<open>Parse\<close> does with an input whose first line is not the delimiter: the first
  line has been read by the \<^verbatim>\<open>Scan\<close> of the condition, and the body is made of the
  lines after it.
\<close>

lemma Parse_first_line_not_delimiter:
  assumes "tokens (NewScanner data) = first # rest"
    and "\<not> too_long (NewScanner data)"
    and "TrimSpace first \<noteq> ''---''"
  shows "Parse yaml_Unmarshal goldmark_Convert data =
           (case goldmark_Convert (concat (map (\<lambda>line. line @ ''\<newline>'') rest)) of
              Inl err \<Rightarrow> Inl (ConvertingMarkdown err)
            | Inr html \<Rightarrow>
                Inr \<lparr>Frontmatter = zero_Frontmatter, HTML = html,
                     Markdown = concat (map (\<lambda>line. line @ ''\<newline>'') rest)\<rparr>)"
  using assms by (simp add: Parse_def Let_def markdown_loop_concat)

lemma TrimSpace_examples:
  "TrimSpace ''---'' = ''---''"
  "TrimSpace ''Hello'' = ''Hello''"
  "TrimSpace ''World'' = ''World''"
  "TrimSpace ''title: Hi'' = ''title: Hi''"
  by (simp_all add: TrimSpace_def white_space_def space_width_def)

lemma NewScanner_examples:
  "NewScanner ''Hello\<newline>World\<newline>'' = \<lparr>tokens = [''Hello'', ''World''], too_long = False\<rparr>"
  "NewScanner ''---\<newline>title: Hi\<newline>'' = \<lparr>tokens = [''---'', ''title: Hi''], too_long = False\<rparr>"
  by (simp_all add: NewScanner_def MaxScanTokenSize_def dropCR_def)

text \<open>
  C1 fails on the code. The input \<^verbatim>\<open>Hello\<close>, newline, \<^verbatim>\<open>World\<close>, newline has no
  frontmatter; the metadata returned is empty, but the body is \<^verbatim>\<open>World\<close> and a
  newline: the first line is lost.
\<close>

theorem Parse_drops_first_line:
  "Parse yaml_Unmarshal_examples goldmark_Convert_examples ''Hello\<newline>World\<newline>'' =
     Inr \<lparr>Frontmatter = zero_Frontmatter, HTML = ''<p>World</p>\<newline>'',
          Markdown = ''World\<newline>''\<rparr>"
proof -
  have "Parse yaml_Unmarshal_examples goldmark_Convert_examples ''Hello\<newline>World\<newline>'' =
          (case goldmark_Convert_examples (concat (map (\<lambda>line. line @ ''\<newline>'') [''World''])) of
             Inl err \<Rightarrow> Inl (ConvertingMarkdown err)
           | Inr html \<Rightarrow>
               Inr \<lparr>Frontmatter = zero_Frontmatter, HTML = html,
                    Markdown = concat (map (\<lambda>line. line @ ''\<newline>'') [''World''])\<rparr>)"
    by (rule Parse_first_line_not_delimiter [where first = "''Hello''"])
       (simp_all add: NewScanner_examples TrimSpace_examples)
  then show ?thesis by (simp add: goldmark_Convert_examples_def)
qed

text \<open>
  C2, as the code has it. An input that opens with a delimiter line and has no
  delimiter line after it, and no line too long for the scanner, is not refused for
  that: every line after the first is metadata, the body is empty, and the result is
  the content with the decoded metadata and the rendering of the empty body, or the
  error of the decoding or of the rendering.
\<close>

theorem Parse_unterminated:
  assumes "tokens (NewScanner data) = first # rest"
    and "\<not> too_long (NewScanner data)"
    and "TrimSpace first = ''---''"
    and "\<forall>line\<in>set rest. TrimSpace line \<noteq> ''---''"
  shows "Parse yaml_Unmarshal goldmark_Convert data =
           (case yaml_Unmarshal (concat (map (\<lambda>line. line @ ''\<newline>'') rest)) of
              Inl err \<Rightarrow> Inl (ParsingFrontmatter err)
            | Inr fm \<Rightarrow>
                (case goldmark_Convert [] of
                   Inl err \<Rightarrow> Inl (ConvertingMarkdown err)
                 | Inr html \<Rightarrow> Inr \<lparr>Frontmatter = fm, HTML = html, Markdown = []\<rparr>))"
  using assms
  by (simp add: Parse_def Let_def frontmatter_loop_unterminated split: sum.splits)

theorem Parse_unterminated_witness:
  "tokens (NewScanner ''---\<newline>title: Hi\<newline>'') = [''---'', ''title: Hi''] \<and>
   \<not> too_long (NewScanner ''---\<newline>title: Hi\<newline>'') \<and>
   TrimSpace ''---'' = ''---'' \<and>
   TrimSpace ''title: Hi'' \<noteq> ''---'' \<and>
   yaml_Unmarshal_examples ''title: Hi\<newline>'' = Inr (zero_Frontmatter\<lparr>Title := ''Hi''\<rparr>) \<and>
   Parse yaml_Unmarshal_examples goldmark_Convert_examples ''---\<newline>title: Hi\<newline>'' =
     Inr \<lparr>Frontmatter = zero_Frontmatter\<lparr>Title := ''Hi''\<rparr>, HTML = [], Markdown = []\<rparr>"
proof -
  have t: "tokens (NewScanner ''---\<newline>title: Hi\<newline>'') = [''---'', ''title: Hi'']"
    and l: "\<not> too_long (NewScanner ''---\<newline>title: Hi\<newline>'')"
    by (simp_all add: NewScanner_examples)
  have r: "\<forall>line\<in>set [''title: Hi'']. TrimSpace line \<noteq> ''---''"
    by (simp add: TrimSpace_examples)
  from Parse_unterminated [OF t l TrimSpace_examples(1) r,
         of yaml_Unmarshal_examples goldmark_Convert_examples]
  have "Parse yaml_Unmarshal_examples goldmark_Convert_examples ''---\<newline>title: Hi\<newline>'' =
          Inr \<lparr>Frontmatter = zero_Frontmatter\<lparr>Title := ''Hi''\<rparr>, HTML = [], Markdown = []\<rparr>"
    by (simp add: yaml_Unmarshal_examples_def goldmark_Convert_examples_def)
  then show ?thesis
    using t l by (simp add: TrimSpace_examples yaml_Unmarshal_examples_def)
qed

text \<open>
  C2, as the specification has it, fails: the input \<^verbatim>\<open>---\<close>, newline,
  \<^verbatim>\<open>title: Hi\<close>, newline, which never closes its frontmatter, is parsed to a content
  with the title \<^verbatim>\<open>Hi\<close> and an empty body.
\<close>

theorem Parse_unterminated_counterexample:
  "Parse yaml_Unmarshal_examples goldmark_Convert_examples ''---\<newline>title: Hi\<newline>'' =
     Inr \<lparr>Frontmatter = zero_Frontmatter\<lparr>Title := ''Hi''\<rparr>, HTML = [], Markdown = []\<rparr>"
  by (simp add: Parse_def Let_def NewScanner_examples TrimSpace_examples
      yaml_Unmarshal_examples_def goldmark_Convert_examples_def)

end
